theory Spec2Isabelle
  imports Main "HOL-Library.Finite_Map" "HOL-Library.Log_Nat"
begin

section \<open>Shared data model\<close>

text \<open>
  The repository holds two Go programs, \<^verbatim>\<open>proxy/main.go\<close> (the Edge Relay, with
  its chat and attestation routes) and \<^verbatim>\<open>function/main.go\<close> (the Body Processor).
  Each handler is modelled as a function from the inbound request and the environment
  (process environment, JSON number decoding, outbound HTTP client, the caller's
  connection) to the upstream requests it issues, the trace of what its response
  writer accepts, and whether it panicked. Log lines are not part of the model.
\<close>

subsection \<open>JSON documents and the values \<^verbatim>\<open>encoding/json\<close> decodes them to\<close>

text \<open>
  A JSON document, and equally the Go value it decodes to. Numbers have the type
  parameter \<open>'f\<close>: in a document a number is the value its literal denotes, in a
  decoded value it is the \<^verbatim>\<open>float64\<close> the decoder made of it. Strings and keys
  are the text \<^verbatim>\<open>encoding/json\<close> decodes; objects are finite maps with string keys.
\<close>

datatype 'f json =
    JNull
  | JBool bool
  | JNumber 'f
  | JString string
  | JArray "'f json list"
  | JObject "(string, 'f json) fmap"

text \<open>A top-level field of a JSON value: present only in an object.\<close>

fun field :: "string \<Rightarrow> 'f json \<Rightarrow> 'f json option" where
  "field k (JObject m) = fmlookup m k"
| "field k v = None"

subsection \<open>\<^verbatim>\<open>http.Header\<close>\<close>

text \<open>
  A header maps a canonical key to its list of values. Every key the two programs
  use is written in canonical form already. \<^verbatim>\<open>Get\<close> returns the first value, or
  the empty string when there is none.
\<close>

type_synonym header = "string \<rightharpoonup> string list"

definition Get :: "header \<Rightarrow> string \<Rightarrow> string" where
  "Get h k = (case h k of None \<Rightarrow> [] | Some [] \<Rightarrow> [] | Some (v # _) \<Rightarrow> v)"

definition Set :: "header \<Rightarrow> string \<Rightarrow> string \<Rightarrow> header" where
  "Set h k v = h(k \<mapsto> [v])"

definition Del :: "header \<Rightarrow> string \<Rightarrow> header" where
  "Del h k = h(k := None)"

subsection \<open>\<^verbatim>\<open>os.Getenv\<close> and \<^verbatim>\<open>strings.HasPrefix\<close>\<close>

definition HasPrefix :: "string \<Rightarrow> string \<Rightarrow> bool" where
  "HasPrefix s pre = (take (length pre) s = pre)"

definition Getenv :: "(string \<rightharpoonup> string) \<Rightarrow> string \<Rightarrow> string" where
  "Getenv e k = (case e k of None \<Rightarrow> [] | Some v \<Rightarrow> v)"

subsection \<open>Requests, upstream requests and upstream responses\<close>

record 'b request =
  req_method :: string
  req_path :: string
  req_header :: header
  req_body :: 'b

record 'b upstream_request =
  up_method :: string
  up_url :: string
  up_header :: header
  up_body :: 'b

text \<open>
  \<open>resp_chunks\<close> lists what the successive \<^verbatim>\<open>Read\<close> calls on the upstream
  response body deliver before the stream ends.
\<close>

record upstream_response =
  resp_status :: nat
  resp_header :: header
  resp_chunks :: "string list"

subsection \<open>The caller's \<^verbatim>\<open>http.ResponseWriter\<close>\<close>

text \<open>
  The writer is the one the \<^verbatim>\<open>net/http\<close> server hands to a handler, seen from
  the handler. The trace records what the writer accepts from it: an informational
  (1xx) status line, the final status line with the header set as it stands at that
  moment, the bytes each \<^verbatim>\<open>Write\<close> reports as taken, and the flushes. The script
  lists what the successive writes of body bytes report, whatever the cause; past its
  end every write is taken in full. What the server then does with accepted bytes
  (buffering; dropping the body of a reply to \<^verbatim>\<open>HEAD\<close>) lies behind the writer.
\<close>

datatype event =
    WroteInformational nat header
  | WroteHeader nat header
  | WroteBody string
  | Flushed

datatype write_result = Accepted | Failed nat

record response_writer =
  w_header :: header
  w_trace :: "event list"
  w_script :: "write_result list"
  w_flusher :: bool

record caller =
  c_flusher :: bool
  c_script :: "write_result list"

text \<open>A connection script on which no write fails.\<close>

definition accepts_all :: "write_result list \<Rightarrow> bool" where
  "accepts_all script = list_all (\<lambda>x. x = Accepted) script"

text \<open>Reading a trace: the final status, and the body bytes accepted.\<close>

fun status_of :: "event list \<Rightarrow> nat option" where
  "status_of [] = None"
| "status_of (WroteHeader code h # es) = Some code"
| "status_of (e # es) = status_of es"

fun body_bytes :: "event list \<Rightarrow> string" where
  "body_bytes [] = []"
| "body_bytes (WroteBody p # es) = p @ body_bytes es"
| "body_bytes (e # es) = body_bytes es"

fun is_header_event :: "event \<Rightarrow> bool" where
  "is_header_event (WroteHeader code h) = True"
| "is_header_event (WroteInformational code h) = True"
| "is_header_event e = False"

definition fresh_writer :: "caller \<Rightarrow> response_writer" where
  "fresh_writer c =
     \<lparr>w_header = Map.empty, w_trace = [], w_script = c_script c, w_flusher = c_flusher c\<rparr>"

text \<open>
  \<^verbatim>\<open>WriteHeader\<close>: a second call is ignored; a code below 100 or above 999 panics
  (\<open>None\<close>); a 1xx code other than 101 sends an informational status line, without
  \<^verbatim>\<open>Content-Length\<close> and \<^verbatim>\<open>Transfer-Encoding\<close>, and leaves the final status open;
  any other code fixes the status and the header set.
\<close>

definition WriteHeader :: "response_writer \<Rightarrow> nat \<Rightarrow> response_writer option" where
  "WriteHeader w code =
     (if status_of (w_trace w) \<noteq> None then Some w
      else if code < 100 \<or> 999 < code then None
      else if 100 \<le> code \<and> code \<le> 199 \<and> code \<noteq> 101
      then Some (w\<lparr>w_trace := w_trace w @
                     [WroteInformational code
                        (Del (Del (w_header w) ''Content-Length'') ''Transfer-Encoding'')]\<rparr>)
      else Some (w\<lparr>w_trace := w_trace w @ [WroteHeader code (w_header w)]\<rparr>))"

text \<open>A \<^verbatim>\<open>Write\<close> or \<^verbatim>\<open>Flush\<close> before any final status writes status 200 first.\<close>

definition implicit_header :: "response_writer \<Rightarrow> response_writer" where
  "implicit_header w =
     (if status_of (w_trace w) = None
      then w\<lparr>w_trace := w_trace w @ [WroteHeader 200 (w_header w)]\<rparr>
      else w)"

definition bodyAllowedForStatus :: "nat \<Rightarrow> bool" where
  "bodyAllowedForStatus status =
     (\<not> (100 \<le> status \<and> status \<le> 199) \<and> status \<noteq> 204 \<and> status \<noteq> 304)"

text \<open>
  \<^verbatim>\<open>Write\<close>: an empty write does nothing more; under a status that admits no body
  the write fails with no byte taken; otherwise the script decides.
\<close>

definition Write :: "response_writer \<Rightarrow> string \<Rightarrow> response_writer \<times> nat \<times> bool" where
  "Write w p =
     (let w1 = implicit_header w in
      if p = [] then (w1, 0, False)
      else if \<not> bodyAllowedForStatus (case status_of (w_trace w1) of Some s \<Rightarrow> s | None \<Rightarrow> 200)
      then (w1, 0, True)
      else case w_script w1 of
        [] \<Rightarrow> (w1\<lparr>w_trace := w_trace w1 @ [WroteBody p]\<rparr>, length p, False)
      | Accepted # s \<Rightarrow>
          (w1\<lparr>w_trace := w_trace w1 @ [WroteBody p], w_script := s\<rparr>, length p, False)
      | Failed n # s \<Rightarrow>
          (w1\<lparr>w_trace := w_trace w1 @ [WroteBody (take n p)], w_script := s\<rparr>,
           min n (length p), True))"

definition Flush :: "response_writer \<Rightarrow> response_writer" where
  "Flush w = (let w1 = implicit_header w in w1\<lparr>w_trace := w_trace w1 @ [Flushed]\<rparr>)"

text \<open>
  \<^verbatim>\<open>http.Error\<close>: drop \<^verbatim>\<open>Content-Length\<close>, set the plain-text content type,
  write the status, then the message and a newline.
\<close>

definition http_Error :: "response_writer \<Rightarrow> string \<Rightarrow> nat \<Rightarrow> response_writer option" where
  "http_Error w msg code =
     (let h = Set (Set (Del (w_header w) ''Content-Length'')
                    ''Content-Type'' ''text/plain; charset=utf-8'')
                ''X-Content-Type-Options'' ''nosniff''
      in case WriteHeader (w\<lparr>w_header := h\<rparr>) code of
           None \<Rightarrow> None
         | Some w1 \<Rightarrow> Some (fst (Write w1 (msg @ [CHR 0x0A]))))"

subsection \<open>Streaming copy\<close>

text \<open>
  \<^verbatim>\<open>flushWriter.Write\<close> (the same in both programs): write, flush, and return what
  the underlying writer returned.
\<close>

definition flushWriter_Write :: "response_writer \<Rightarrow> string \<Rightarrow> response_writer \<times> nat \<times> bool" where
  "flushWriter_Write w p = (case Write w p of (w', n, err) \<Rightarrow> (Flush w', n, err))"

text \<open>
  \<^verbatim>\<open>io.Copy\<close>: each non-empty chunk read is written once; the loop stops at the
  first write that fails or is short. The result is the writer, the bytes read from
  the source, and whether the copy failed.
\<close>

fun io_Copy ::
  "(response_writer \<Rightarrow> string \<Rightarrow> response_writer \<times> nat \<times> bool) \<Rightarrow>
   response_writer \<Rightarrow> string list \<Rightarrow> response_writer \<times> string \<times> bool" where
  "io_Copy wr w [] = (w, [], False)"
| "io_Copy wr w (c # cs) =
     (if c = [] then io_Copy wr w cs
      else case wr w c of (w', n, err) \<Rightarrow>
        if err \<or> n \<noteq> length c then (w', c, True)
        else case io_Copy wr w' cs of (w'', rd, e) \<Rightarrow> (w'', c @ rd, e))"

text \<open>
  The tail of both handlers: with a flusher the copy goes through the
  \<^verbatim>\<open>flushWriter\<close>, without one straight to the writer.
\<close>

definition copy_body :: "response_writer \<Rightarrow> string list \<Rightarrow> response_writer \<times> string \<times> bool" where
  "copy_body w chunks =
     (if w_flusher w then io_Copy flushWriter_Write w chunks else io_Copy Write w chunks)"

text \<open>What a handler did: the upstream requests issued, the writer at the end, the
  bytes it read from the upstream response body, and whether it panicked.\<close>

record 'b handled =
  issued :: "'b upstream_request list"
  writer :: response_writer
  upstream_read :: string
  panicked :: bool

text \<open>Ending a request with \<^verbatim>\<open>http.Error\<close>, after the upstream requests given.\<close>

definition respond_error ::
  "'b upstream_request list \<Rightarrow> response_writer \<Rightarrow> string \<Rightarrow> nat \<Rightarrow> 'b handled" where
  "respond_error reqs w msg code =
     (case http_Error w msg code of
        None \<Rightarrow> \<lparr>issued = reqs, writer = w, upstream_read = [], panicked = True\<rparr>
      | Some w' \<Rightarrow> \<lparr>issued = reqs, writer = w', upstream_read = [], panicked = False\<rparr>)"

text \<open>
  The end of a relaying handler: write the upstream status, then copy the body. When
  \<^verbatim>\<open>WriteHeader\<close> panics nothing has been written (\<open>Inl\<close>, with the writer as it
  stood).
\<close>

definition write_status_and_copy ::
  "(response_writer \<Rightarrow> string list \<Rightarrow> response_writer \<times> string \<times> bool) \<Rightarrow>
   response_writer \<Rightarrow> upstream_response \<Rightarrow>
   response_writer + response_writer \<times> string \<times> bool" where
  "write_status_and_copy copy w resp =
     (case WriteHeader w (resp_status resp) of
        None \<Rightarrow> Inl w
      | Some w' \<Rightarrow> Inr (copy w' (resp_chunks resp)))"

definition relayed ::
  "'b upstream_request \<Rightarrow> response_writer + response_writer \<times> string \<times> bool \<Rightarrow> 'b handled" where
  "relayed req res =
     (case res of
        Inl w \<Rightarrow> \<lparr>issued = [req], writer = w, upstream_read = [], panicked = True\<rparr>
      | Inr (w', rd, err) \<Rightarrow>
          \<lparr>issued = [req], writer = w', upstream_read = rd, panicked = False\<rparr>)"

section \<open>The Body Processor (\<^verbatim>\<open>function/main.go\<close>)\<close>

definition defaultSystemPrompt :: string where
  "defaultSystemPrompt = ''You are a helpful assistant. Always respond in {{LANGUAGE}}.''"

definition maxLanguageLen :: nat where
  "maxLanguageLen = 64"


text \<open>
  \<^verbatim>\<open>languageRegex\<close> is \<^verbatim>\<open>^[a-zA-Z][a-zA-Z \-]*$\<close>. Without the multi-line flag
  \<^verbatim>\<open>$\<close> matches at the end of the text only, so the whole string must be a letter
  followed by letters, spaces and hyphens. A byte outside ASCII never matches.
\<close>

definition letters :: string where
  "letters = ''abcdefghijklmnopqrstuvwxyzABCDEFGHIJKLMNOPQRSTUVWXYZ''"

definition languageRegex_MatchString :: "string \<Rightarrow> bool" where
  "languageRegex_MatchString s =
     (case s of
        [] \<Rightarrow> False
      | c # cs \<Rightarrow> c \<in> set letters \<and>
          list_all (\<lambda>d. d \<in> set letters \<or> d = CHR '' '' \<or> d = CHR ''-'') cs)"

text \<open>
  \<^verbatim>\<open>strings.ReplaceAll\<close> with a non-empty pattern: the leftmost occurrence is
  replaced and the scan resumes behind it. The only call passes the placeholder.
\<close>

function (sequential) ReplaceAll :: "string \<Rightarrow> string \<Rightarrow> string \<Rightarrow> string" where
  "ReplaceAll [] (a # old) new = []"
| "ReplaceAll (c # cs) (a # old) new =
     (if HasPrefix (c # cs) (a # old)
      then new @ ReplaceAll (drop (length (a # old)) (c # cs)) (a # old) new
      else c # ReplaceAll cs (a # old) new)"
  by pat_completeness auto
termination
  by (relation "measure (\<lambda>(s, old, new). length s)") auto

text \<open>\<^verbatim>\<open>strings.TrimRight\<close>: drop every trailing byte that is in the cutset.\<close>

definition TrimRight :: "string \<Rightarrow> string \<Rightarrow> string" where
  "TrimRight s cutset = rev (dropWhile (\<lambda>c. c \<in> set cutset) (rev s))"

text \<open>
  The inbound body as the handler meets it: \<^verbatim>\<open>io.ReadAll\<close> fails, or the bytes
  are not JSON, or they are the JSON document given.
\<close>

datatype 'f body = Unreadable | NotJSON | Document "'f json"

text \<open>
  The environment of the Body Processor: the process environment; how a number of
  the document becomes a \<^verbatim>\<open>float64\<close> (\<^verbatim>\<open>strconv.ParseFloat\<close>: the nearest
  \<^verbatim>\<open>float64\<close>, and a range error for a number too large); whether
  \<^verbatim>\<open>json.Marshal\<close> fails on a value; whether \<^verbatim>\<open>http.NewRequestWithContext\<close> fails
  on a URL; and what \<^verbatim>\<open>http.DefaultClient.Do\<close> returns (\<open>None\<close>: transport error).
\<close>

record 'f function_world =
  env :: "string \<rightharpoonup> string"
  float64 :: "'f \<Rightarrow> 'f"
  float64_range_error :: "'f \<Rightarrow> bool"
  marshal_fails :: "'f json \<Rightarrow> bool"
  new_request_fails :: "string \<Rightarrow> bool"
  client_Do :: "'f json upstream_request \<Rightarrow> upstream_response option"

text \<open>
  \<^verbatim>\<open>json.Unmarshal\<close> into a \<^verbatim>\<open>map[string]interface{}\<close>: \<^verbatim>\<open>null\<close> leaves the map
  nil without an error; an object gives the map, every number in it, at any depth,
  decoded to \<^verbatim>\<open>float64\<close>, and is an error when one of its numbers is out of range;
  any other document is a type error.
\<close>

datatype 'f go_map = NilMap | GoMap "(string, 'f json) fmap"

definition Unmarshal_map :: "'f function_world \<Rightarrow> 'f json \<Rightarrow> 'f go_map option" where
  "Unmarshal_map W d =
     (case d of
        JObject m \<Rightarrow>
          if pred_json (\<lambda>n. \<not> float64_range_error W n) d
          then Some (GoMap (fmmap (map_json (float64 W)) m))
          else None
      | JNull \<Rightarrow> Some NilMap
      | _ \<Rightarrow> None)"

datatype reject = HttpError string nat | Panic

text \<open>Step 1: the effective language.\<close>

definition effectiveLanguage :: "header \<Rightarrow> string" where
  "effectiveLanguage h =
     (if Get h ''X-Language'' = [] then ''English'' else Get h ''X-Language'')"

text \<open>Step 4: render the system prompt.\<close>

definition promptTemplate :: "(string \<rightharpoonup> string) \<Rightarrow> string" where
  "promptTemplate e =
     (if Getenv e ''SYSTEM_PROMPT_TEMPLATE'' = [] then defaultSystemPrompt
      else Getenv e ''SYSTEM_PROMPT_TEMPLATE'')"

definition renderSystemPrompt :: "(string \<rightharpoonup> string) \<Rightarrow> string \<Rightarrow> string" where
  "renderSystemPrompt e language = ReplaceAll (promptTemplate e) ''{{LANGUAGE}}'' language"

text \<open>Step 5: prepend the system message. A missing or non-array \<^verbatim>\<open>messages\<close>
  gives the nil slice.\<close>

definition systemMessage :: "string \<Rightarrow> 'f json" where
  "systemMessage systemPrompt =
     JObject (fmap_of_list [(''role'', JString ''system''), (''content'', JString systemPrompt)])"

definition messagesOf :: "(string, 'f json) fmap \<Rightarrow> 'f json list" where
  "messagesOf reqBody =
     (case fmlookup reqBody ''messages'' of Some (JArray xs) \<Rightarrow> xs | _ \<Rightarrow> [])"

definition prependSystemMessage ::
  "string \<Rightarrow> (string, 'f json) fmap \<Rightarrow> (string, 'f json) fmap" where
  "prependSystemMessage systemPrompt reqBody =
     fmupd ''messages'' (JArray (systemMessage systemPrompt # messagesOf reqBody)) reqBody"

text \<open>Step 6: override the model if configured.\<close>

definition overrideModel ::
  "(string \<rightharpoonup> string) \<Rightarrow> (string, 'f json) fmap \<Rightarrow> (string, 'f json) fmap" where
  "overrideModel e reqBody =
     (if Getenv e ''TINFOIL_MODEL'' \<noteq> []
      then fmupd ''model'' (JString (Getenv e ''TINFOIL_MODEL'')) reqBody
      else reqBody)"

text \<open>
  Lines 35 to 119 of \<^verbatim>\<open>chatHandler\<close>: everything up to the upstream request.
  The result is the rejection, or the request handed to the client. \<open>up_body\<close> is
  the value whose \<^verbatim>\<open>json.Marshal\<close> encoding is sent. Assigning into the nil map
  panics.
\<close>

definition chatHandler_request ::
  "'f function_world \<Rightarrow> 'f body request \<Rightarrow> reject + 'f json upstream_request" where
  "chatHandler_request W r =
     (if req_method r \<noteq> ''POST'' then Inl (HttpError ''Method not allowed'' 405)
      else let language = effectiveLanguage (req_header r) in
      if length language > maxLanguageLen \<or> \<not> languageRegex_MatchString language
      then Inl (HttpError ''Invalid X-Language header'' 400)
      else case req_body r of
        Unreadable \<Rightarrow> Inl (HttpError ''Failed to read request body'' 500)
      | NotJSON \<Rightarrow> Inl (HttpError ''Invalid JSON body'' 400)
      | Document d \<Rightarrow>
         (case Unmarshal_map W d of
            None \<Rightarrow> Inl (HttpError ''Invalid JSON body'' 400)
          | Some NilMap \<Rightarrow> Inl Panic
          | Some (GoMap reqBody) \<Rightarrow>
             (let systemPrompt = renderSystemPrompt (env W) language;
                  modified = overrideModel (env W) (prependSystemMessage systemPrompt reqBody);
                  inferenceURL = Getenv (env W) ''TINFOIL_INFERENCE_URL'';
                  apiKey = Getenv (env W) ''TINFOIL_API_KEY'';
                  upstreamURL = TrimRight inferenceURL ''/'' @ ''/v1/chat/completions'';
                  h0 = Set (Set Map.empty ''Content-Type'' ''application/json'')
                         ''Authorization'' (''Bearer '' @ apiKey);
                  h1 = (if Get (req_header r) ''Accept'' \<noteq> []
                        then Set h0 ''Accept'' (Get (req_header r) ''Accept'') else h0)
              in if marshal_fails W (JObject modified)
                 then Inl (HttpError ''Failed to marshal request'' 500)
                 else if inferenceURL = []
                 then Inl (HttpError ''TINFOIL_INFERENCE_URL not configured'' 500)
                 else if apiKey = []
                 then Inl (HttpError ''TINFOIL_API_KEY not configured'' 500)
                 else if new_request_fails W upstreamURL
                 then Inl (HttpError ''Failed to create upstream request'' 500)
                 else Inr \<lparr>up_method = ''POST'', up_url = upstreamURL,
                           up_header = h1, up_body = JObject modified\<rparr>)))"

text \<open>Step 9: mirror two headers, write the status, stream the body.\<close>

definition chatHandler_stream ::
  "response_writer \<Rightarrow> upstream_response \<Rightarrow>
   response_writer + response_writer \<times> string \<times> bool" where
  "chatHandler_stream w resp =
     (let ct = Get (resp_header resp) ''Content-Type'';
          w1 = (if ct \<noteq> [] then w\<lparr>w_header := Set (w_header w) ''Content-Type'' ct\<rparr> else w);
          te = Get (resp_header resp) ''Transfer-Encoding'';
          w2 = (if te \<noteq> []
                then w1\<lparr>w_header := Del (Set (w_header w1) ''Transfer-Encoding'' te)
                                        ''Content-Length''\<rparr>
                else w1)
      in write_status_and_copy copy_body w2 resp)"

definition chatHandler ::
  "'f function_world \<Rightarrow> caller \<Rightarrow> 'f body request \<Rightarrow> 'f json handled" where
  "chatHandler W c r =
     (let w = fresh_writer c in
      case chatHandler_request W r of
        Inl (HttpError msg code) \<Rightarrow> respond_error [] w msg code
      | Inl Panic \<Rightarrow>
          \<lparr>issued = [], writer = w, upstream_read = [], panicked = True\<rparr>
      | Inr req \<Rightarrow>
         (case client_Do W req of
            None \<Rightarrow> respond_error [req] w ''Upstream request failed'' 502
          | Some resp \<Rightarrow> relayed req (chatHandler_stream w resp)))"

subsection \<open>Rendering in the specification's words\<close>




section \<open>The Edge Relay (\<^verbatim>\<open>proxy/main.go\<close>)\<close>

definition enclaveURLHeader :: string where
  "enclaveURLHeader = ''X-Tinfoil-Enclave-Url''"

definition usageMetricsRequestHeader :: string where
  "usageMetricsRequestHeader = ''X-Tinfoil-Request-Usage-Metrics''"

definition allowHeaders :: string where
  "allowHeaders = ''Accept, Authorization, Content-Type, Ehbp-Encapsulated-Key, X-Tinfoil-Enclave-Url, X-Language, X-User-Tier''"

definition exposeHeaders :: string where
  "exposeHeaders = ''Ehbp-Response-Nonce''"

definition ehbpRequestHeaders :: "string list" where
  "ehbpRequestHeaders = [''Ehbp-Encapsulated-Key'']"

definition ehbpResponseHeaders :: "string list" where
  "ehbpResponseHeaders = [''Ehbp-Response-Nonce'']"

definition paidModels :: string where
  "paidModels = ''gpt-oss-120b,kimi-k2-5''"

definition freeModels :: string where
  "freeModels = ''gpt-oss-120b''"

fun copyHeaders :: "header \<Rightarrow> header \<Rightarrow> string list \<Rightarrow> header" where
  "copyHeaders dst src [] = dst"
| "copyHeaders dst src (key # keys) =
     copyHeaders (if Get src key \<noteq> [] then Set dst key (Get src key) else dst) src keys"

definition setLanguageHeader :: "header \<Rightarrow> header \<Rightarrow> header" where
  "setLanguageHeader dst src =
     (if Get src ''X-Language'' \<noteq> [] then Set dst ''X-Language'' (Get src ''X-Language'')
      else dst)"

definition setAllowedModelsHeader :: "header \<Rightarrow> header \<Rightarrow> header" where
  "setAllowedModelsHeader dst src =
     (if Get src ''X-User-Tier'' = ''paid''
      then Set dst ''X-Allowed-Models'' ''gpt-oss-120b,kimi-k2-5''
      else Set dst ''X-Allowed-Models'' ''gpt-oss-120b'')"

text \<open>
  The environment of the Edge Relay: the process environment, the error of
  \<^verbatim>\<open>http.NewRequestWithContext\<close> on a URL if it has one, and what
  \<^verbatim>\<open>http.DefaultClient.Do\<close> returns (\<open>Inl\<close>: the transport error's text). The
  inbound body is handed on unread, so its type is the parameter \<open>'b\<close>.
\<close>

record 'b proxy_world =
  p_env :: "string \<rightharpoonup> string"
  p_new_request_error :: "string \<Rightarrow> string option"
  p_client_Do :: "'b upstream_request \<Rightarrow> string + upstream_response"

text \<open>The four CORS headers set on every response of the chat route.\<close>

definition cors :: "response_writer \<Rightarrow> response_writer" where
  "cors w =
     w\<lparr>w_header :=
         Set (Set (Set (Set (w_header w) ''Access-Control-Allow-Origin'' ''*'')
                     ''Access-Control-Allow-Methods'' ''POST, OPTIONS'')
                ''Access-Control-Allow-Headers'' allowHeaders)
           ''Access-Control-Expose-Headers'' exposeHeaders\<rparr>"

text \<open>
  Lines 56 to 89 of \<^verbatim>\<open>proxyHandler\<close>, reached when the method is not
  \<^verbatim>\<open>OPTIONS\<close>: the rejection (message and status) or the upstream request.
\<close>

definition proxyHandler_request ::
  "'b proxy_world \<Rightarrow> 'b request \<Rightarrow> (string \<times> nat) + 'b upstream_request" where
  "proxyHandler_request W r =
     (let upstreamBase = Get (req_header r) enclaveURLHeader in
      if upstreamBase = [] then Inl (''X-Tinfoil-Enclave-Url header required'', 400)
      else let upstreamURL = upstreamBase @ req_path r in
      case p_new_request_error W upstreamURL of
        Some err \<Rightarrow> Inl (err, 500)
      | None \<Rightarrow>
         (let h0 = Set Map.empty ''Content-Type'' ''application/json'';
              h1 = (if Get (req_header r) ''Accept'' \<noteq> []
                    then Set h0 ''Accept'' (Get (req_header r) ''Accept'') else h0);
              apiKey = Getenv (p_env W) ''TINFOIL_API_KEY'';
              h2 = (if apiKey \<noteq> [] then Set h1 ''Authorization'' (''Bearer '' @ apiKey)
                    else h1);
              h3 = Set h2 usageMetricsRequestHeader ''true'';
              h4 = copyHeaders h3 (req_header r) ehbpRequestHeaders;
              h5 = setLanguageHeader h4 (req_header r);
              h6 = setAllowedModelsHeader h5 (req_header r)
          in Inr \<lparr>up_method = ''POST'', up_url = upstreamURL,
                   up_header = h6, up_body = req_body r\<rparr>))"

text \<open>Lines 98 to 126: mirror the response headers, write the status, stream the body.\<close>

definition proxyHandler_stream ::
  "response_writer \<Rightarrow> upstream_response \<Rightarrow>
   response_writer + response_writer \<times> string \<times> bool" where
  "proxyHandler_stream w resp =
     (let w0 = w\<lparr>w_header := copyHeaders (w_header w) (resp_header resp) ehbpResponseHeaders\<rparr>;
          ct = Get (resp_header resp) ''Content-Type'';
          w1 = (if ct \<noteq> [] then w0\<lparr>w_header := Set (w_header w0) ''Content-Type'' ct\<rparr>
                else w0);
          te = Get (resp_header resp) ''Transfer-Encoding'';
          w2 = (if te \<noteq> []
                then w1\<lparr>w_header := Del (Set (w_header w1) ''Transfer-Encoding'' te)
                                        ''Content-Length''\<rparr>
                else w1)
      in write_status_and_copy copy_body w2 resp)"

text \<open>\<^verbatim>\<open>WriteHeader\<close> alone ends the request, as for a preflight.\<close>

definition respond_status :: "response_writer \<Rightarrow> nat \<Rightarrow> 'b handled" where
  "respond_status w code =
     (case WriteHeader w code of
        None \<Rightarrow> \<lparr>issued = [], writer = w, upstream_read = [], panicked = True\<rparr>
      | Some w' \<Rightarrow> \<lparr>issued = [], writer = w', upstream_read = [], panicked = False\<rparr>)"

definition proxyHandler :: "'b proxy_world \<Rightarrow> caller \<Rightarrow> 'b request \<Rightarrow> 'b handled" where
  "proxyHandler W c r =
     (let w = cors (fresh_writer c) in
      if req_method r = ''OPTIONS'' then respond_status w 204
      else case proxyHandler_request W r of
        Inl (msg, code) \<Rightarrow> respond_error [] w msg code
      | Inr req \<Rightarrow>
         (case p_client_Do W req of
            Inl err \<Rightarrow> respond_error [req] w err 502
          | Inr resp \<Rightarrow> relayed req (proxyHandler_stream w resp)))"

text \<open>
  \<^verbatim>\<open>attestationHandler\<close>: the request goes to the fixed attestation endpoint with
  the inbound method and body, and the answer is relayed with a plain \<^verbatim>\<open>io.Copy\<close>.
\<close>

definition attestationURL :: string where
  "attestationURL = ''https://atc.tinfoil.sh/attestation''"

definition attestation_cors :: "response_writer \<Rightarrow> response_writer" where
  "attestation_cors w =
     w\<lparr>w_header :=
         Set (Set (Set (w_header w) ''Access-Control-Allow-Origin'' ''*'')
                ''Access-Control-Allow-Methods'' ''GET, POST, OPTIONS'')
           ''Access-Control-Allow-Headers'' ''Content-Type''\<rparr>"

definition attestationHandler_stream ::
  "response_writer \<Rightarrow> upstream_response \<Rightarrow>
   response_writer + response_writer \<times> string \<times> bool" where
  "attestationHandler_stream w resp =
     (let ct = Get (resp_header resp) ''Content-Type'';
          w1 = (if ct \<noteq> [] then w\<lparr>w_header := Set (w_header w) ''Content-Type'' ct\<rparr> else w)
      in write_status_and_copy (io_Copy Write) w1 resp)"

definition attestationHandler :: "'b proxy_world \<Rightarrow> caller \<Rightarrow> 'b request \<Rightarrow> 'b handled" where
  "attestationHandler W c r =
     (let w = attestation_cors (fresh_writer c) in
      if req_method r = ''OPTIONS'' then respond_status w 204
      else if req_method r \<noteq> ''GET'' \<and> req_method r \<noteq> ''POST''
      then respond_error [] w ''Method not allowed'' 405
      else case p_new_request_error W attestationURL of
        Some err \<Rightarrow> respond_error [] w ''Failed to create attestation request'' 500
      | None \<Rightarrow>
         (let req = \<lparr>up_method = req_method r, up_url = attestationURL,
                     up_header = (if req_method r = ''POST''
                                  then Set Map.empty ''Content-Type'' ''application/json''
                                  else Map.empty),
                     up_body = req_body r\<rparr>
          in case p_client_Do W req of
               Inl err \<Rightarrow> respond_error [req] w ''Failed to fetch attestation bundle'' 502
             | Inr resp \<Rightarrow> relayed req (attestationHandler_stream w resp)))"

section \<open>Example inputs\<close>

text \<open>A relay whose upstream answers 200 with a two-chunk body, and a caller
  whose connection accepts every write.\<close>

definition ex_proxy_world :: "string proxy_world" where
  "ex_proxy_world =
     \<lparr>p_env = Map.empty, p_new_request_error = (\<lambda>u. None),
      p_client_Do = (\<lambda>q. Inr \<lparr>resp_status = 200, resp_header = Map.empty,
                                resp_chunks = [''da'', ''ta'']\<rparr>)\<rparr>"

definition ex_caller :: caller where
  "ex_caller = \<lparr>c_flusher = True, c_script = []\<rparr>"

definition ex_relay_request :: "string \<Rightarrow> string \<Rightarrow> string request" where
  "ex_relay_request m tier =
     \<lparr>req_method = m, req_path = ''/v1/chat/completions'',
      req_header = [''X-Tinfoil-Enclave-Url'' \<mapsto> [''https://enclave.example''],
                ''X-User-Tier'' \<mapsto> [tier]],
      req_body = ''ciphertext''\<rparr>"

definition ex_bare_request :: "string request" where
  "ex_bare_request =
     \<lparr>req_method = ''POST'', req_path = ''/v1/chat/completions'', req_header = Map.empty,
      req_body = ''ciphertext''\<rparr>"

text \<open>A Body Processor with its two required settings, without and with the model
  override, whose inference backend answers 200 with a two-chunk body; and a chat
  request with one user message.\<close>

definition ex_env :: "string \<rightharpoonup> string" where
  "ex_env = [''TINFOIL_INFERENCE_URL'' \<mapsto> ''https://inference.tinfoil.sh/'',
             ''TINFOIL_API_KEY'' \<mapsto> ''sk-test'']"

definition ex_env_override :: "string \<rightharpoonup> string" where
  "ex_env_override = ex_env(''TINFOIL_MODEL'' \<mapsto> ''kimi-k2-5'')"

text \<open>
  The example documents hold integers only. \<open>ex_float64\<close> is the \<^verbatim>\<open>float64\<close>
  nearest to an integer: exact below \<open>2 ^ 53\<close>, otherwise rounded to 53 significant
  bits, a tie going to the even neighbour; the result is out of range from
  \<open>2 ^ 1024\<close> on.
\<close>

definition ex_float64 :: "int \<Rightarrow> int" where
  "ex_float64 n =
     (let a = \<bar>n\<bar> in
      if a < 2 ^ 53 then n
      else let e = nat (bitlen a) - 53;
               q = a div 2 ^ e;
               r = a mod 2 ^ e;
               h = 2 ^ (e - 1);
               q' = (if h < r \<or> (r = h \<and> odd q) then q + 1 else q)
           in sgn n * q' * 2 ^ e)"

definition ex_float64_range_error :: "int \<Rightarrow> bool" where
  "ex_float64_range_error n = (2 ^ 1024 \<le> \<bar>ex_float64 n\<bar>)"

definition ex_function_world :: "(string \<rightharpoonup> string) \<Rightarrow> int function_world" where
  "ex_function_world e =
     \<lparr>env = e, float64 = ex_float64, float64_range_error = ex_float64_range_error,
      marshal_fails = (\<lambda>v. False), new_request_fails = (\<lambda>u. False),
      client_Do = (\<lambda>q. Some \<lparr>resp_status = 200, resp_header = Map.empty,
                               resp_chunks = [''da'', ''ta'']\<rparr>)\<rparr>"

definition ex_user_message :: "int json" where
  "ex_user_message =
     JObject (fmap_of_list [(''role'', JString ''user''), (''content'', JString ''Hi'')])"

definition ex_chat_object :: "string \<Rightarrow> (string, int json) fmap" where
  "ex_chat_object model =
     fmap_of_list [(''model'', JString model), (''messages'', JArray [ex_user_message]),
                   (''max_tokens'', JNumber 16)]"

definition ex_chat_request :: "header \<Rightarrow> string \<Rightarrow> int body request" where
  "ex_chat_request h model =
     \<lparr>req_method = ''POST'', req_path = ''/v1/chat/completions'', req_header = h,
      req_body = Document (JObject (ex_chat_object model))\<rparr>"


text \<open>An upstream that answers with the status line \<^verbatim>\<open>042\<close>.\<close>

definition ex_odd_status_world :: "string proxy_world" where
  "ex_odd_status_world =
     \<lparr>p_env = Map.empty, p_new_request_error = (\<lambda>u. None),
      p_client_Do = (\<lambda>q. Inr \<lparr>resp_status = 42, resp_header = Map.empty,
                                resp_chunks = [''da'', ''ta'']\<rparr>)\<rparr>"

text \<open>A caller whose connection fails the first write, taking no byte.\<close>

definition ex_broken_caller :: caller where
  "ex_broken_caller = \<lparr>c_flusher = True, c_script = [Failed 0]\<rparr>"

section \<open>Verified properties\<close>

subsection \<open>The response writer\<close>

lemma issued_respond_error [simp]: "issued (respond_error reqs w msg code) = reqs"
  by (simp add: respond_error_def split: option.splits)

lemma issued_respond_status [simp]: "issued (respond_status w code) = []"
  by (simp add: respond_status_def split: option.splits)

lemma issued_relayed [simp]: "issued (relayed req res) = [req]"
  by (simp add: relayed_def split: sum.splits prod.splits)

lemma status_of_append:
  "status_of (xs @ ys) = (case status_of xs of None \<Rightarrow> status_of ys | Some s \<Rightarrow> Some s)"
  by (induction xs rule: status_of.induct) simp_all

lemma body_bytes_append: "body_bytes (xs @ ys) = body_bytes xs @ body_bytes ys"
  by (induction xs rule: body_bytes.induct) simp_all

lemma WriteHeader_final:
  assumes "status_of (w_trace w) = None" and "code = 101 \<or> (200 \<le> code \<and> code \<le> 999)"
  shows "WriteHeader w code = Some (w\<lparr>w_trace := w_trace w @ [WroteHeader code (w_header w)]\<rparr>)"
  using assms by (auto simp: WriteHeader_def)

lemma WriteHeader_panics:
  assumes "status_of (w_trace w) = None" and "code < 100 \<or> 999 < code"
  shows "WriteHeader w code = None"
  using assms by (auto simp: WriteHeader_def)

lemma respond_error_status:
  assumes "w_trace w = []" and "200 \<le> code" and "code \<le> 999"
  shows "status_of (w_trace (writer (respond_error reqs w msg code))) = Some code
         \<and> \<not> panicked (respond_error reqs w msg code)"
  using assms
  by (auto simp: respond_error_def http_Error_def Let_def WriteHeader_def Write_def
        implicit_header_def status_of_append
        split: option.splits list.splits write_result.splits)

lemma respond_status_status:
  assumes "w_trace w = []" and "200 \<le> code" and "code \<le> 999"
  shows "w_trace (writer (respond_status w code)) = [WroteHeader code (w_header w)]"
  using assms by (simp add: respond_status_def WriteHeader_def)

lemma fresh_writer_trace [simp]: "w_trace (fresh_writer c) = []"
  by (simp add: fresh_writer_def)

lemma cors_trace [simp]: "w_trace (cors w) = w_trace w"
  by (simp add: cors_def)

lemma attestation_cors_trace [simp]: "w_trace (attestation_cors w) = w_trace w"
  by (simp add: attestation_cors_def)

subsection \<open>The Edge Relay\<close>

lemma issued_proxyHandler:
  "req \<in> set (issued (proxyHandler W c r)) \<Longrightarrow>
     req_method r \<noteq> ''OPTIONS'' \<and> proxyHandler_request W r = Inr req"
  by (auto simp: proxyHandler_def Let_def split: if_splits sum.splits prod.splits)

lemma proxyHandler_request_allowed:
  "proxyHandler_request W r = Inr req \<Longrightarrow>
     up_header req ''X-Allowed-Models'' =
       Some [if Get (req_header r) ''X-User-Tier'' = ''paid'' then paidModels else freeModels]"
  by (auto simp: proxyHandler_request_def Let_def setAllowedModelsHeader_def Set_def
        paidModels_def freeModels_def split: if_splits option.splits)

text \<open>
  C5. Every upstream request the Edge Relay issues carries exactly one
  \<^verbatim>\<open>X-Allowed-Models\<close> value: the paid allow-list when the inbound
  \<^verbatim>\<open>X-User-Tier\<close> is \<^verbatim>\<open>paid\<close>, the free-tier model for any other value or an
  absent header. The two lists differ, so the value is the paid list exactly for the
  paid tier, and there is no third value.
\<close>

theorem allowed_models_by_tier:
  assumes "req \<in> set (issued (proxyHandler W c r))"
  shows "up_header req ''X-Allowed-Models'' =
           Some [if Get (req_header r) ''X-User-Tier'' = ''paid'' then paidModels else freeModels]
         \<and> (Get (up_header req) ''X-Allowed-Models'' = paidModels
              \<longleftrightarrow> Get (req_header r) ''X-User-Tier'' = ''paid'')
         \<and> (Get (up_header req) ''X-Allowed-Models'' = freeModels
              \<longleftrightarrow> Get (req_header r) ''X-User-Tier'' \<noteq> ''paid'')"
proof -
  from assms have "proxyHandler_request W r = Inr req"
    by (simp add: issued_proxyHandler)
  then have h: "up_header req ''X-Allowed-Models'' =
      Some [if Get (req_header r) ''X-User-Tier'' = ''paid'' then paidModels else freeModels]"
    by (rule proxyHandler_request_allowed)
  have ne: "paidModels \<noteq> freeModels"
    by (simp add: paidModels_def freeModels_def)
  from h ne show ?thesis
    by (auto simp: Get_def)
qed

lemma ex_relay_request_result:
  "m \<noteq> ''OPTIONS'' \<Longrightarrow>
   proxyHandler_request ex_proxy_world (ex_relay_request m t) =
     Inr \<lparr>up_method = ''POST'', up_url = ''https://enclave.example/v1/chat/completions'',
          up_header = [''Content-Type'' \<mapsto> [''application/json''],
                       ''X-Tinfoil-Request-Usage-Metrics'' \<mapsto> [''true''],
                       ''X-Allowed-Models'' \<mapsto> [if t = ''paid'' then paidModels else freeModels]],
          up_body = ''ciphertext''\<rparr>"
  by (simp add: proxyHandler_request_def ex_proxy_world_def ex_relay_request_def Let_def
        enclaveURLHeader_def usageMetricsRequestHeader_def ehbpRequestHeaders_def
        setLanguageHeader_def setAllowedModelsHeader_def Get_def Set_def Getenv_def
        paidModels_def freeModels_def)

lemma ex_relay_issued:
  assumes "m \<noteq> ''OPTIONS''"
  shows "issued (proxyHandler ex_proxy_world c (ex_relay_request m t)) \<noteq> []"
proof -
  have "req_method (ex_relay_request m t) \<noteq> ''OPTIONS''"
    using assms by (simp add: ex_relay_request_def)
  then show ?thesis
    using ex_relay_request_result [OF assms, of t]
    by (simp add: proxyHandler_def Let_def split: sum.splits)
qed

theorem allowed_models_by_tier_witness:
  "(let req = hd (issued (proxyHandler ex_proxy_world ex_caller (ex_relay_request ''POST'' ''paid'')))
    in req \<in> set (issued (proxyHandler ex_proxy_world ex_caller (ex_relay_request ''POST'' ''paid'')))
       \<and> up_header req ''X-Allowed-Models'' = Some [''gpt-oss-120b,kimi-k2-5''])"
proof -
  let ?h = "proxyHandler ex_proxy_world ex_caller (ex_relay_request ''POST'' ''paid'')"
  have i: "issued ?h \<noteq> []"
    by (rule ex_relay_issued) simp
  then have m: "hd (issued ?h) \<in> set (issued ?h)" by simp
  from allowed_models_by_tier [OF m] m show ?thesis
    by (simp add: Let_def ex_relay_request_def Get_def paidModels_def)
qed

text \<open>
  C6. A request to the chat route of the Edge Relay whose method is not
  \<^verbatim>\<open>OPTIONS\<close> and that has no \<^verbatim>\<open>X-Tinfoil-Enclave-Url\<close> value is answered with
  status 400, and no upstream request is issued.
\<close>

theorem missing_enclave_url_rejected:
  assumes "req_method r \<noteq> ''OPTIONS''" and "Get (req_header r) enclaveURLHeader = []"
  shows "issued (proxyHandler W c r) = []
         \<and> status_of (w_trace (writer (proxyHandler W c r))) = Some 400"
proof -
  from assms(2) have "proxyHandler_request W r
      = Inl (''X-Tinfoil-Enclave-Url header required'', 400)"
    by (simp add: proxyHandler_request_def Let_def)
  with assms(1) have "proxyHandler W c r
      = respond_error [] (cors (fresh_writer c)) ''X-Tinfoil-Enclave-Url header required'' 400"
    by (simp add: proxyHandler_def Let_def)
  then show ?thesis
    by (simp add: respond_error_status)
qed

theorem missing_enclave_url_rejected_witness:
  "req_method ex_bare_request \<noteq> ''OPTIONS''
   \<and> Get (req_header ex_bare_request) enclaveURLHeader = []
   \<and> issued (proxyHandler ex_proxy_world ex_caller ex_bare_request) = []
   \<and> status_of (w_trace (writer (proxyHandler ex_proxy_world ex_caller ex_bare_request)))
       = Some 400"
proof -
  have a: "req_method ex_bare_request \<noteq> ''OPTIONS''"
    by (simp add: ex_bare_request_def)
  have b: "Get (req_header ex_bare_request) enclaveURLHeader = []"
    by (simp add: ex_bare_request_def Get_def)
  from missing_enclave_url_rejected [OF a b, of ex_proxy_world ex_caller] a b
  show ?thesis by simp
qed

lemma options_preflight:
  assumes "req_method r = ''OPTIONS''"
  shows "issued (proxyHandler W c r) = []
         \<and> status_of (w_trace (writer (proxyHandler W c r))) = Some 204
         \<and> body_bytes (w_trace (writer (proxyHandler W c r))) = []"
  using assms
  by (simp add: proxyHandler_def Let_def respond_status_status)

lemma ex_relay_handled:
  assumes "m \<noteq> ''OPTIONS''"
  shows "map up_method (issued (proxyHandler ex_proxy_world ex_caller (ex_relay_request m t)))
           = [''POST'']
         \<and> status_of (w_trace (writer
               (proxyHandler ex_proxy_world ex_caller (ex_relay_request m t)))) = Some 200
         \<and> body_bytes (w_trace (writer
               (proxyHandler ex_proxy_world ex_caller (ex_relay_request m t)))) = ''data''
         \<and> upstream_read (proxyHandler ex_proxy_world ex_caller (ex_relay_request m t))
             = ''data''"
proof -
  have m: "req_method (ex_relay_request m t) \<noteq> ''OPTIONS''"
    using assms by (simp add: ex_relay_request_def)
  have d: "p_client_Do ex_proxy_world q =
     Inr \<lparr>resp_status = 200, resp_header = Map.empty, resp_chunks = [''da'', ''ta'']\<rparr>" for q
    by (simp add: ex_proxy_world_def)
  have s: "proxyHandler_stream (cors (fresh_writer ex_caller))
      \<lparr>resp_status = 200, resp_header = Map.empty, resp_chunks = [''da'', ''ta'']\<rparr>
     = Inr (w', rd, e)
     \<Longrightarrow> status_of (w_trace w') = Some 200 \<and> body_bytes (w_trace w') = ''data''
         \<and> rd = ''data''" for w' rd e
    by (auto simp: proxyHandler_stream_def write_status_and_copy_def Let_def
        ehbpResponseHeaders_def Get_def copy_body_def cors_def fresh_writer_def ex_caller_def
        WriteHeader_def flushWriter_Write_def Write_def Flush_def implicit_header_def
        bodyAllowedForStatus_def)
  have n: "proxyHandler_stream (cors (fresh_writer ex_caller))
      \<lparr>resp_status = 200, resp_header = Map.empty, resp_chunks = [''da'', ''ta'']\<rparr>
     \<noteq> Inl w'" for w'
    by (simp add: proxyHandler_stream_def write_status_and_copy_def Let_def WriteHeader_def
        ehbpResponseHeaders_def Get_def)
  show ?thesis
    using s n ex_relay_request_result [OF assms, of t]
    by (auto simp: proxyHandler_def Let_def m d relayed_def split: sum.splits prod.splits)
qed

text \<open>
  C3. The Edge Relay has no method check on the chat route: a \<^verbatim>\<open>GET\<close> that names
  an enclave is not answered with 405 but forwarded upstream as a \<^verbatim>\<open>POST\<close>, and the
  caller receives the upstream status.
\<close>

theorem get_request_is_forwarded:
  "map up_method (issued (proxyHandler ex_proxy_world ex_caller (ex_relay_request ''GET'' ''free'')))
     = [''POST'']
   \<and> status_of (w_trace (writer
         (proxyHandler ex_proxy_world ex_caller (ex_relay_request ''GET'' ''free'')))) = Some 200"
  using ex_relay_handled [of "''GET''" "''free''"] by simp

text \<open>
  C10. For a request to the chat route of the Edge Relay whose method is not
  \<^verbatim>\<open>OPTIONS\<close>, the handler does exactly what it does for \<^verbatim>\<open>POST\<close>; every upstream
  request it issues has method \<^verbatim>\<open>POST\<close> and the inbound body; and it issues none
  only when the enclave header is missing or the request cannot be constructed,
  neither of which looks at the method.
\<close>

theorem inbound_method_is_ignored:
  assumes "req_method r \<noteq> ''OPTIONS''"
  shows "proxyHandler W c r = proxyHandler W c (r\<lparr>req_method := ''POST''\<rparr>)
         \<and> (\<forall>req \<in> set (issued (proxyHandler W c r)).
               up_method req = ''POST'' \<and> up_body req = req_body r)
         \<and> (issued (proxyHandler W c r) = [] \<longleftrightarrow>
               Get (req_header r) enclaveURLHeader = []
               \<or> p_new_request_error W (Get (req_header r) enclaveURLHeader @ req_path r) \<noteq> None)"
proof -
  have same: "proxyHandler_request W (r\<lparr>req_method := ''POST''\<rparr>) = proxyHandler_request W r"
    by (simp add: proxyHandler_request_def Let_def split: option.splits)
  have one: "proxyHandler W c r = proxyHandler W c (r\<lparr>req_method := ''POST''\<rparr>)"
    using assms by (simp add: proxyHandler_def same)
  have two: "\<forall>req \<in> set (issued (proxyHandler W c r)).
               up_method req = ''POST'' \<and> up_body req = req_body r"
  proof
    fix req assume "req \<in> set (issued (proxyHandler W c r))"
    then have "proxyHandler_request W r = Inr req"
      by (simp add: issued_proxyHandler)
    then show "up_method req = ''POST'' \<and> up_body req = req_body r"
      by (auto simp: proxyHandler_request_def Let_def split: if_splits option.splits)
  qed
  have three: "issued (proxyHandler W c r) = [] \<longleftrightarrow>
               Get (req_header r) enclaveURLHeader = []
               \<or> p_new_request_error W (Get (req_header r) enclaveURLHeader @ req_path r) \<noteq> None"
    using assms
    by (auto simp: proxyHandler_def proxyHandler_request_def Let_def
          split: sum.splits prod.splits option.splits if_splits)
  from one two three show ?thesis by blast
qed

theorem inbound_method_is_ignored_witness:
  "req_method (ex_relay_request ''DELETE'' ''free'') \<noteq> ''OPTIONS''
   \<and> proxyHandler ex_proxy_world ex_caller (ex_relay_request ''DELETE'' ''free'')
       = proxyHandler ex_proxy_world ex_caller (ex_relay_request ''POST'' ''free'')
   \<and> issued (proxyHandler ex_proxy_world ex_caller (ex_relay_request ''DELETE'' ''free'')) \<noteq> []"
proof -
  have m: "req_method (ex_relay_request ''DELETE'' ''free'') \<noteq> ''OPTIONS''"
    by (simp add: ex_relay_request_def)
  have p: "(ex_relay_request ''DELETE'' ''free'')\<lparr>req_method := ''POST''\<rparr>
             = ex_relay_request ''POST'' ''free''"
    by (simp add: ex_relay_request_def)
  have n: "p_new_request_error ex_proxy_world u = None" for u
    by (simp add: ex_proxy_world_def)
  have g: "Get (req_header (ex_relay_request ''DELETE'' ''free'')) enclaveURLHeader \<noteq> []"
    by (simp add: ex_relay_request_def Get_def enclaveURLHeader_def)
  note t = inbound_method_is_ignored [OF m, of ex_proxy_world ex_caller]
  from t [THEN conjunct1] p have e: "proxyHandler ex_proxy_world ex_caller (ex_relay_request ''DELETE'' ''free'')
       = proxyHandler ex_proxy_world ex_caller (ex_relay_request ''POST'' ''free'')"
    by simp
  from t [THEN conjunct2, THEN conjunct2] n g have i:
    "issued (proxyHandler ex_proxy_world ex_caller (ex_relay_request ''DELETE'' ''free'')) \<noteq> []"
    by simp
  from m e i show ?thesis by blast
qed

subsection \<open>The Body Processor\<close>

lemma Unmarshal_map_GoMap:
  "Unmarshal_map W d = Some (GoMap m) \<longleftrightarrow>
     (\<exists>m0. d = JObject m0 \<and> pred_json (\<lambda>n. \<not> float64_range_error W n) d
        \<and> m = fmmap (map_json (float64 W)) m0)"
  by (cases d) (auto simp: Unmarshal_map_def)


lemma map_json_fixed: "(\<forall>n \<in> set_json v. f n = n) \<Longrightarrow> map_json f v = v"
proof -
  assume "\<forall>n \<in> set_json v. f n = n"
  then have "map_json f v = map_json (\<lambda>x. x) v"
    by (intro json.map_cong) simp_all
  then show ?thesis by (simp add: json.map_ident)
qed


lemma issued_chatHandler:
  "req \<in> set (issued (chatHandler W c r)) \<Longrightarrow> chatHandler_request W r = Inr req"
  by (auto simp: chatHandler_def Let_def
        split: sum.splits reject.splits option.splits prod.splits)

lemma chatHandler_request_Inr:
  assumes "chatHandler_request W r = Inr req"
  shows "req_method r = ''POST''
         \<and> length (effectiveLanguage (req_header r)) \<le> maxLanguageLen
         \<and> languageRegex_MatchString (effectiveLanguage (req_header r))
         \<and> (\<exists>m0. req_body r = Document (JObject m0)
               \<and> up_body req = JObject (overrideModel (env W)
                    (prependSystemMessage
                       (renderSystemPrompt (env W) (effectiveLanguage (req_header r)))
                       (fmmap (map_json (float64 W)) m0))))"
  using assms
  by (auto simp: chatHandler_request_def Let_def Unmarshal_map_GoMap
        split: if_splits body.splits option.splits go_map.splits)

lemma chatHandler_request_forwards:
  assumes "req_method r = ''POST''"
    and "length (effectiveLanguage (req_header r)) \<le> maxLanguageLen"
    and "languageRegex_MatchString (effectiveLanguage (req_header r))"
    and "req_body r = Document (JObject m0)"
    and "pred_json (\<lambda>n. \<not> float64_range_error W n) (JObject m0)"
    and "\<not> marshal_fails W (JObject (overrideModel (env W)
                    (prependSystemMessage
                       (renderSystemPrompt (env W) (effectiveLanguage (req_header r)))
                       (fmmap (map_json (float64 W)) m0))))"
    and "Getenv (env W) ''TINFOIL_INFERENCE_URL'' \<noteq> []"
    and "Getenv (env W) ''TINFOIL_API_KEY'' \<noteq> []"
    and "\<not> new_request_fails W
           (TrimRight (Getenv (env W) ''TINFOIL_INFERENCE_URL'') ''/'' @ ''/v1/chat/completions'')"
  shows "\<exists>req. chatHandler_request W r = Inr req \<and> issued (chatHandler W c r) = [req]"
proof -
  have u: "Unmarshal_map W (JObject m0) = Some (GoMap (fmmap (map_json (float64 W)) m0))"
    using assms(5) by (simp add: Unmarshal_map_def)
  have "\<exists>req. chatHandler_request W r = Inr req"
    using assms u by (simp add: chatHandler_request_def Let_def)
  then obtain req where q: "chatHandler_request W r = Inr req" by blast
  then have "issued (chatHandler W c r) = [req]"
    by (simp add: chatHandler_def Let_def split: option.splits)
  with q show ?thesis by blast
qed

lemma lookup_prepend_other:
  "k \<noteq> ''messages'' \<Longrightarrow> fmlookup (prependSystemMessage p m) k = fmlookup m k"
  by (simp add: prependSystemMessage_def)


lemma lookup_override:
  "fmlookup (overrideModel e m) k =
     (if k = ''model'' \<and> Getenv e ''TINFOIL_MODEL'' \<noteq> []
      then Some (JString (Getenv e ''TINFOIL_MODEL'')) else fmlookup m k)"
  by (simp add: overrideModel_def)

text \<open>
  C7. In every request the Body Processor forwards, the \<^verbatim>\<open>model\<close> field of the body
  is the value of \<^verbatim>\<open>TINFOIL_MODEL\<close> when that is non-empty, whatever the inbound
  body held there (a value or no field at all); when it is unset or empty the field is
  what the inbound body held, as decoded: a value whose numbers are \<^verbatim>\<open>float64\<close>
  values, and so every string, is unchanged, and an absent field stays absent.
\<close>

theorem model_override_wins:
  assumes "req \<in> set (issued (chatHandler W c r))"
  shows "\<exists>d. req_body r = Document d
           \<and> (if Getenv (env W) ''TINFOIL_MODEL'' \<noteq> []
               then field ''model'' (up_body req)
                      = Some (JString (Getenv (env W) ''TINFOIL_MODEL''))
               else field ''model'' (up_body req) = field ''model'' (map_json (float64 W) d)
                    \<and> (\<forall>v. field ''model'' d = Some v \<and> (\<forall>n \<in> set_json v. float64 W n = n)
                          \<longrightarrow> field ''model'' (up_body req) = Some v)
                    \<and> (\<forall>s. field ''model'' d = Some (JString s)
                          \<longrightarrow> field ''model'' (up_body req) = Some (JString s))
                    \<and> (field ''model'' d = None \<longrightarrow> field ''model'' (up_body req) = None))"
proof -
  from assms have "chatHandler_request W r = Inr req"
    by (rule issued_chatHandler)
  then obtain m0 where b: "req_body r = Document (JObject m0)"
    and u: "up_body req = JObject (overrideModel (env W)
              (prependSystemMessage
                 (renderSystemPrompt (env W) (effectiveLanguage (req_header r)))
                 (fmmap (map_json (float64 W)) m0)))"
    using chatHandler_request_Inr by blast
  show ?thesis
    using b u by (auto simp: lookup_override lookup_prepend_other map_json_fixed)
qed

lemma English_valid:
  "length ''English'' \<le> maxLanguageLen \<and> languageRegex_MatchString ''English''"
  by (simp add: maxLanguageLen_def languageRegex_MatchString_def letters_def)

lemma ex_float64_small: "\<bar>n\<bar> < 2 ^ 53 \<Longrightarrow> ex_float64 n = n"
  by (simp add: ex_float64_def Let_def)

lemma ex_float64_seed: "ex_float64 9007199254740993 = 9007199254740992"
  by code_simp

lemma ex_numbers_in_range:
  "pred_json (\<lambda>n. \<not> float64_range_error (ex_function_world e) n) (JObject (ex_chat_object model))"
  "pred_json (\<lambda>n. \<not> float64_range_error (ex_function_world e) n)
     (JObject (fmupd ''seed'' (JNumber 9007199254740993) (ex_chat_object model)))"
proof -
  have s: "\<not> ex_float64_range_error 16"
    by (simp add: ex_float64_range_error_def ex_float64_small)
  have t: "\<not> ex_float64_range_error 9007199254740993"
    by (simp add: ex_float64_range_error_def ex_float64_seed)
  have o: "fmpred (\<lambda>k. pred_json (\<lambda>n. \<not> ex_float64_range_error n)) (ex_chat_object model)"
    unfolding ex_chat_object_def
    by (rule fmpred_of_list) (auto simp: ex_user_message_def pred_fmap_fmpred s
          intro!: fmpred_upd)
  show "pred_json (\<lambda>n. \<not> float64_range_error (ex_function_world e) n)
          (JObject (ex_chat_object model))"
    using o by (simp add: ex_function_world_def pred_fmap_fmpred)
  show "pred_json (\<lambda>n. \<not> float64_range_error (ex_function_world e) n)
     (JObject (fmupd ''seed'' (JNumber 9007199254740993) (ex_chat_object model)))"
    using o t by (auto simp: ex_function_world_def pred_fmap_fmpred intro!: fmpred_upd)
qed

lemma ex_chat_forwards:
  assumes "length (effectiveLanguage h) \<le> maxLanguageLen"
    and "languageRegex_MatchString (effectiveLanguage h)"
    and "Getenv e ''TINFOIL_INFERENCE_URL'' \<noteq> []"
    and "Getenv e ''TINFOIL_API_KEY'' \<noteq> []"
  shows "\<exists>req. issued (chatHandler (ex_function_world e) ex_caller (ex_chat_request h model))
           = [req]"
proof -
  have "\<exists>req. chatHandler_request (ex_function_world e) (ex_chat_request h model) = Inr req
      \<and> issued (chatHandler (ex_function_world e) ex_caller (ex_chat_request h model)) = [req]"
    by (rule chatHandler_request_forwards [where ?m0.0 = "ex_chat_object model"])
       (use assms ex_numbers_in_range(1) [of e model] in
         \<open>simp_all add: ex_chat_request_def ex_function_world_def\<close>)
  then show ?thesis by blast
qed

lemma ex_env_configured:
  "Getenv ex_env ''TINFOIL_INFERENCE_URL'' \<noteq> [] \<and> Getenv ex_env ''TINFOIL_API_KEY'' \<noteq> []
   \<and> Getenv ex_env ''TINFOIL_MODEL'' = [] \<and> Getenv ex_env ''SYSTEM_PROMPT_TEMPLATE'' = []"
  by (simp add: ex_env_def Getenv_def)

lemma ex_env_override_configured:
  "Getenv ex_env_override ''TINFOIL_INFERENCE_URL'' \<noteq> []
   \<and> Getenv ex_env_override ''TINFOIL_API_KEY'' \<noteq> []
   \<and> Getenv ex_env_override ''TINFOIL_MODEL'' = ''kimi-k2-5''
   \<and> Getenv ex_env_override ''SYSTEM_PROMPT_TEMPLATE'' = []"
  by (simp add: ex_env_override_def ex_env_def Getenv_def)

lemma effectiveLanguage_empty: "effectiveLanguage Map.empty = ''English''"
  by (simp add: effectiveLanguage_def Get_def)

theorem model_override_wins_witness:
  "\<exists>req. req \<in> set (issued (chatHandler (ex_function_world ex_env_override) ex_caller
                              (ex_chat_request Map.empty ''gpt-oss-120b'')))
     \<and> field ''model'' (up_body req) = Some (JString ''kimi-k2-5'')"
proof -
  obtain req where i: "issued (chatHandler (ex_function_world ex_env_override) ex_caller
                              (ex_chat_request Map.empty ''gpt-oss-120b'')) = [req]"
    using ex_chat_forwards [of Map.empty ex_env_override "''gpt-oss-120b''"]
      English_valid ex_env_override_configured
    by (auto simp: effectiveLanguage_empty)
  then have m: "req \<in> set (issued (chatHandler (ex_function_world ex_env_override) ex_caller
                              (ex_chat_request Map.empty ''gpt-oss-120b'')))"
    by simp
  from model_override_wins [OF m] ex_env_override_configured
  have "field ''model'' (up_body req) = Some (JString ''kimi-k2-5'')"
    by (simp add: ex_function_world_def)
  with m show ?thesis by blast
qed












text \<open>A body with a number beyond the \<^verbatim>\<open>float64\<close> range is not forwarded at all:
  \<^verbatim>\<open>json.Unmarshal\<close> fails and the answer is 400.\<close>

lemma out_of_range_number_rejected:
  assumes "req_method r = ''POST''"
    and "length (effectiveLanguage (req_header r)) \<le> maxLanguageLen"
    and "languageRegex_MatchString (effectiveLanguage (req_header r))"
    and "req_body r = Document (JObject m0)"
    and "\<not> pred_json (\<lambda>n. \<not> float64_range_error W n) (JObject m0)"
  shows "issued (chatHandler W c r) = []
         \<and> status_of (w_trace (writer (chatHandler W c r))) = Some 400"
proof -
  have "Unmarshal_map W (JObject m0) = None"
    using assms(5) by (simp add: Unmarshal_map_def)
  then have "chatHandler_request W r = Inl (HttpError ''Invalid JSON body'' 400)"
    using assms(1-4) by (simp add: chatHandler_request_def Let_def)
  then show ?thesis
    by (simp add: chatHandler_def Let_def respond_error_status)
qed




text \<open>
  C4, as amended. A \<^verbatim>\<open>POST\<close> to the chat route of the Body Processor whose
  \<^verbatim>\<open>X-Language\<close> value is not empty and is longer than 64 bytes or does not match
  the pattern is answered with status 400, and no upstream request is issued.
\<close>

theorem invalid_language_rejected:
  assumes "req_method r = ''POST''"
    and "Get (req_header r) ''X-Language'' \<noteq> []"
    and "length (Get (req_header r) ''X-Language'') > 64
         \<or> \<not> languageRegex_MatchString (Get (req_header r) ''X-Language'')"
  shows "issued (chatHandler W c r) = []
         \<and> status_of (w_trace (writer (chatHandler W c r))) = Some 400"
proof -
  have "chatHandler_request W r = Inl (HttpError ''Invalid X-Language header'' 400)"
    using assms
    by (auto simp: chatHandler_request_def effectiveLanguage_def maxLanguageLen_def Let_def)
  then show ?thesis
    by (simp add: chatHandler_def Let_def respond_error_status)
qed

theorem invalid_language_rejected_witness:
  "req_method (ex_chat_request [''X-Language'' \<mapsto> [''fr_FR'']] ''gpt-oss-120b'') = ''POST''
   \<and> \<not> languageRegex_MatchString ''fr_FR''
   \<and> issued (chatHandler (ex_function_world ex_env) ex_caller
         (ex_chat_request [''X-Language'' \<mapsto> [''fr_FR'']] ''gpt-oss-120b'')) = []
   \<and> status_of (w_trace (writer (chatHandler (ex_function_world ex_env) ex_caller
         (ex_chat_request [''X-Language'' \<mapsto> [''fr_FR'']] ''gpt-oss-120b'')))) = Some 400"
proof -
  let ?r = "ex_chat_request [''X-Language'' \<mapsto> [''fr_FR'']] ''gpt-oss-120b''"
  have a: "req_method ?r = ''POST''"
    by (simp add: ex_chat_request_def)
  have g: "Get (req_header ?r) ''X-Language'' = ''fr_FR''"
    by (simp add: ex_chat_request_def Get_def)
  have n: "\<not> languageRegex_MatchString ''fr_FR''"
    by (simp add: languageRegex_MatchString_def letters_def)
  have b: "Get (req_header ?r) ''X-Language'' \<noteq> []"
    unfolding g by simp
  have c: "length (Get (req_header ?r) ''X-Language'') > 64
         \<or> \<not> languageRegex_MatchString (Get (req_header ?r) ''X-Language'')"
    unfolding g using n by simp
  from invalid_language_rejected [OF a b c, of "ex_function_world ex_env" ex_caller] a n
  show ?thesis by simp
qed

lemma ex_chat_status:
  assumes "issued (chatHandler (ex_function_world e) ex_caller r) = [req]"
  shows "status_of (w_trace (writer (chatHandler (ex_function_world e) ex_caller r))) = Some 200
         \<and> body_bytes (w_trace (writer (chatHandler (ex_function_world e) ex_caller r)))
             = ''data''
         \<and> upstream_read (chatHandler (ex_function_world e) ex_caller r) = ''data''"
proof -
  have d: "client_Do (ex_function_world e) q =
     Some \<lparr>resp_status = 200, resp_header = Map.empty, resp_chunks = [''da'', ''ta'']\<rparr>" for q
    by (simp add: ex_function_world_def)
  have s: "chatHandler_stream (fresh_writer ex_caller)
      \<lparr>resp_status = 200, resp_header = Map.empty, resp_chunks = [''da'', ''ta'']\<rparr>
     = Inr (w', rd, x)
     \<Longrightarrow> status_of (w_trace w') = Some 200 \<and> body_bytes (w_trace w') = ''data''
         \<and> rd = ''data''" for w' rd x
    by (auto simp: chatHandler_stream_def write_status_and_copy_def Let_def Get_def
        copy_body_def fresh_writer_def ex_caller_def WriteHeader_def flushWriter_Write_def
        Write_def Flush_def implicit_header_def bodyAllowedForStatus_def)
  have n: "chatHandler_stream (fresh_writer ex_caller)
      \<lparr>resp_status = 200, resp_header = Map.empty, resp_chunks = [''da'', ''ta'']\<rparr>
     \<noteq> Inl w'" for w'
    by (simp add: chatHandler_stream_def write_status_and_copy_def Let_def WriteHeader_def
        Get_def)
  from assms have "\<exists>q. chatHandler_request (ex_function_world e) r = Inr q"
    by (auto simp: chatHandler_def Let_def split: sum.splits reject.splits)
  then show ?thesis
    using s n
    by (auto simp: chatHandler_def Let_def d relayed_def split: sum.splits prod.splits)
qed

theorem empty_language_value_counterexample:
  "req_header (ex_chat_request [''X-Language'' \<mapsto> [[]]] ''gpt-oss-120b'') ''X-Language''
     = Some [[]]
   \<and> \<not> languageRegex_MatchString []
   \<and> length (issued (chatHandler (ex_function_world ex_env) ex_caller
         (ex_chat_request [''X-Language'' \<mapsto> [[]]] ''gpt-oss-120b''))) = 1
   \<and> status_of (w_trace (writer (chatHandler (ex_function_world ex_env) ex_caller
         (ex_chat_request [''X-Language'' \<mapsto> [[]]] ''gpt-oss-120b'')))) = Some 200"
proof -
  let ?h = "[''X-Language'' \<mapsto> [[]]]"
  have l: "effectiveLanguage ?h = ''English''"
    by (simp add: effectiveLanguage_def Get_def)
  obtain req where i: "issued (chatHandler (ex_function_world ex_env) ex_caller
                          (ex_chat_request ?h ''gpt-oss-120b'')) = [req]"
    using ex_chat_forwards [of ?h ex_env "''gpt-oss-120b''"] English_valid ex_env_configured
    unfolding l by blast
  from ex_chat_status [OF i, THEN conjunct1] i show ?thesis
    by (simp add: ex_chat_request_def languageRegex_MatchString_def)
qed

text \<open>
  C2. The Body Processor never reads \<^verbatim>\<open>X-Allowed-Models\<close>: a request whose body asks
  for \<^verbatim>\<open>kimi-k2-5\<close> while the allow-list holds only \<^verbatim>\<open>gpt-oss-120b\<close> is forwarded
  to the inference backend with that model, and the caller receives the upstream status.
\<close>

theorem disallowed_model_is_forwarded:
  "Get (req_header (ex_chat_request [''X-Allowed-Models'' \<mapsto> [''gpt-oss-120b'']] ''kimi-k2-5''))
       ''X-Allowed-Models'' = ''gpt-oss-120b''
   \<and> field ''model'' (JObject (ex_chat_object ''kimi-k2-5'')) = Some (JString ''kimi-k2-5'')
   \<and> map (field ''model'' \<circ> up_body)
        (issued (chatHandler (ex_function_world ex_env) ex_caller
           (ex_chat_request [''X-Allowed-Models'' \<mapsto> [''gpt-oss-120b'']] ''kimi-k2-5'')))
       = [Some (JString ''kimi-k2-5'')]
   \<and> status_of (w_trace (writer (chatHandler (ex_function_world ex_env) ex_caller
           (ex_chat_request [''X-Allowed-Models'' \<mapsto> [''gpt-oss-120b'']] ''kimi-k2-5''))))
       = Some 200"
proof -
  let ?h = "[''X-Allowed-Models'' \<mapsto> [''gpt-oss-120b'']]"
  let ?r = "ex_chat_request ?h ''kimi-k2-5''"
  let ?W = "ex_function_world ex_env"
  have l: "effectiveLanguage ?h = ''English''"
    by (simp add: effectiveLanguage_def Get_def)
  have "\<exists>req. chatHandler_request ?W ?r = Inr req \<and> issued (chatHandler ?W ex_caller ?r) = [req]"
    by (rule chatHandler_request_forwards [where ?m0.0 = "ex_chat_object ''kimi-k2-5''"])
       (use English_valid ex_env_configured ex_numbers_in_range(1) [of ex_env "''kimi-k2-5''"] in
         \<open>simp_all add: ex_chat_request_def ex_function_world_def l\<close>)
  then obtain req where q: "chatHandler_request ?W ?r = Inr req"
    and i: "issued (chatHandler ?W ex_caller ?r) = [req]" by blast
  from chatHandler_request_Inr [OF q] ex_env_configured
  have "field ''model'' (up_body req) = Some (JString ''kimi-k2-5'')"
    by (auto simp: lookup_override lookup_prepend_other ex_function_world_def
          ex_chat_request_def ex_chat_object_def)
  with i ex_chat_status [OF i, THEN conjunct1] show ?thesis
    by (simp add: ex_chat_object_def ex_chat_request_def Get_def)
qed

subsection \<open>Streaming, in all three relaying handlers\<close>

lemma take_min_length: "take (min n (length p)) p = take n p"
  by (simp add: min_def)

lemma HasPrefix_appendI: "HasPrefix (xs @ ys) xs"
  by (simp add: HasPrefix_def)

lemma HasPrefix_rest: "HasPrefix s pre \<Longrightarrow> \<exists>rest. s = pre @ rest"
  by (metis HasPrefix_def append_take_drop_id)

lemma Write_step:
  assumes "Write w p = (w', n, err)" and "status_of (w_trace w) = Some s"
  shows "\<exists>evs. w_trace w' = w_trace w @ evs \<and> (\<forall>e \<in> set evs. \<not> is_header_event e)
           \<and> body_bytes evs = take n p
           \<and> (accepts_all (w_script w) \<and> bodyAllowedForStatus s
                \<longrightarrow> n = length p \<and> \<not> err \<and> accepts_all (w_script w'))
           \<and> (\<not> bodyAllowedForStatus s \<longrightarrow> n = 0)"
  using assms
  by (auto simp: Write_def Let_def implicit_header_def accepts_all_def take_min_length
        split: list.splits write_result.splits if_splits)

lemma flushWriter_Write_step:
  assumes "flushWriter_Write w p = (w', n, err)" and "status_of (w_trace w) = Some s"
  shows "\<exists>evs. w_trace w' = w_trace w @ evs \<and> (\<forall>e \<in> set evs. \<not> is_header_event e)
           \<and> body_bytes evs = take n p
           \<and> (accepts_all (w_script w) \<and> bodyAllowedForStatus s
                \<longrightarrow> n = length p \<and> \<not> err \<and> accepts_all (w_script w'))
           \<and> (\<not> bodyAllowedForStatus s \<longrightarrow> n = 0)"
proof -
  from assms(1) obtain w1 where w: "Write w p = (w1, n, err)" and f: "w' = Flush w1"
    by (auto simp: flushWriter_Write_def split: prod.splits)
  from Write_step [OF w assms(2)] obtain evs where
    e: "w_trace w1 = w_trace w @ evs" "\<forall>e \<in> set evs. \<not> is_header_event e"
       "body_bytes evs = take n p"
       "accepts_all (w_script w) \<and> bodyAllowedForStatus s
          \<longrightarrow> n = length p \<and> \<not> err \<and> accepts_all (w_script w1)"
       "\<not> bodyAllowedForStatus s \<longrightarrow> n = 0"
    by blast
  have st: "status_of (w_trace w1) = Some s"
    using e(1) assms(2) by (simp add: status_of_append)
  then have fl: "w' = w1\<lparr>w_trace := w_trace w1 @ [Flushed]\<rparr>"
    using f by (simp add: Flush_def implicit_header_def Let_def)
  have "w_trace w' = w_trace w @ (evs @ [Flushed])"
    using e(1) fl by simp
  moreover have "\<forall>e \<in> set (evs @ [Flushed]). \<not> is_header_event e"
    using e(2) by simp
  moreover have "body_bytes (evs @ [Flushed]) = take n p"
    using e(3) by (simp add: body_bytes_append)
  moreover have "accepts_all (w_script w) \<and> bodyAllowedForStatus s
      \<longrightarrow> n = length p \<and> \<not> err \<and> accepts_all (w_script w')"
    using e(4) fl by simp
  moreover note e(5)
  ultimately show ?thesis by blast
qed

lemma io_Copy_trace:
  assumes step: "\<And>w p w' n err. wr w p = (w', n, err) \<Longrightarrow> status_of (w_trace w) = Some s \<Longrightarrow>
      \<exists>evs. w_trace w' = w_trace w @ evs \<and> (\<forall>e \<in> set evs. \<not> is_header_event e)
           \<and> body_bytes evs = take n p
           \<and> (accepts_all (w_script w) \<and> bodyAllowedForStatus s
                \<longrightarrow> n = length p \<and> \<not> err \<and> accepts_all (w_script w'))
           \<and> (\<not> bodyAllowedForStatus s \<longrightarrow> n = 0)"
  shows "io_Copy wr w cs = (w', rd, err) \<Longrightarrow> status_of (w_trace w) = Some s \<Longrightarrow>
     \<exists>evs. w_trace w' = w_trace w @ evs \<and> (\<forall>e \<in> set evs. \<not> is_header_event e)
       \<and> HasPrefix rd (body_bytes evs)
       \<and> HasPrefix (concat cs) rd
       \<and> (accepts_all (w_script w) \<and> bodyAllowedForStatus s \<longrightarrow> body_bytes evs = concat cs)
       \<and> (\<not> bodyAllowedForStatus s \<longrightarrow> body_bytes evs = [])"
proof (induction cs arbitrary: w w' rd err)
  case Nil
  then show ?case by (simp add: HasPrefix_def)
next
  case (Cons c cs)
  show ?case
  proof (cases "c = []")
    case True
    with Cons.prems have "io_Copy wr w cs = (w', rd, err)" by simp
    from Cons.IH [OF this Cons.prems(2)] True show ?thesis by simp
  next
    case False
    obtain w1 n e1 where w1: "wr w c = (w1, n, e1)"
      by (cases "wr w c") auto
    from step [OF w1 Cons.prems(2)] obtain evs1 where
      s: "w_trace w1 = w_trace w @ evs1" "\<forall>e \<in> set evs1. \<not> is_header_event e"
         "body_bytes evs1 = take n c"
         "accepts_all (w_script w) \<and> bodyAllowedForStatus s
            \<longrightarrow> n = length c \<and> \<not> e1 \<and> accepts_all (w_script w1)"
         "\<not> bodyAllowedForStatus s \<longrightarrow> n = 0"
      by blast
    show ?thesis
    proof (cases "e1 \<or> n \<noteq> length c")
      case True
      with Cons.prems(1) False w1 have r: "w' = w1" "rd = c" by auto
      have "c = take n c @ drop n c" by simp
      then have "HasPrefix rd (body_bytes evs1)"
        using r(2) s(3) HasPrefix_appendI [of "take n c" "drop n c"] by simp
      moreover have "HasPrefix (concat (c # cs)) rd"
        using r(2) by (simp add: HasPrefix_appendI)
      moreover have "\<not> (accepts_all (w_script w) \<and> bodyAllowedForStatus s)"
        using True s(4) by blast
      moreover have "\<not> bodyAllowedForStatus s \<longrightarrow> body_bytes evs1 = []"
        using s(3,5) by simp
      ultimately show ?thesis using s(1,2) r(1) by blast
    next
      case ok: False
      obtain w2 rd2 e2 where w2: "io_Copy wr w1 cs = (w2, rd2, e2)"
        by (cases "io_Copy wr w1 cs") auto
      with Cons.prems(1) False w1 ok have r: "w' = w2" "rd = c @ rd2" by auto
      have st: "status_of (w_trace w1) = Some s"
        using s(1) Cons.prems(2) by (simp add: status_of_append)
      from Cons.IH [OF w2 st] obtain evs2 where
        t: "w_trace w2 = w_trace w1 @ evs2" "\<forall>e \<in> set evs2. \<not> is_header_event e"
           "HasPrefix rd2 (body_bytes evs2)" "HasPrefix (concat cs) rd2"
           "accepts_all (w_script w1) \<and> bodyAllowedForStatus s \<longrightarrow> body_bytes evs2 = concat cs"
           "\<not> bodyAllowedForStatus s \<longrightarrow> body_bytes evs2 = []"
        by blast
      from ok s(3) have b1: "body_bytes evs1 = c" by simp
      have "w_trace w' = w_trace w @ (evs1 @ evs2)"
        using r(1) s(1) t(1) by simp
      moreover have "\<forall>e \<in> set (evs1 @ evs2). \<not> is_header_event e"
        using s(2) t(2) by auto
      moreover have "HasPrefix rd (body_bytes (evs1 @ evs2))"
        using r(2) b1 t(3) by (simp add: body_bytes_append HasPrefix_def)
      moreover have "HasPrefix (concat (c # cs)) rd"
        using r(2) t(4) by (simp add: HasPrefix_def)
      moreover have "accepts_all (w_script w) \<and> bodyAllowedForStatus s \<longrightarrow>
          body_bytes (evs1 @ evs2) = concat (c # cs)"
        using b1 s(4) t(5) by (simp add: body_bytes_append)
      moreover have "bodyAllowedForStatus s"
        using ok False s(5) by auto
      ultimately show ?thesis by blast
    qed
  qed
qed

lemma copy_body_trace:
  assumes "copy_body w cs = (w', rd, err)" and "status_of (w_trace w) = Some s"
  shows "\<exists>evs. w_trace w' = w_trace w @ evs \<and> (\<forall>e \<in> set evs. \<not> is_header_event e)
       \<and> HasPrefix rd (body_bytes evs)
       \<and> HasPrefix (concat cs) rd
       \<and> (accepts_all (w_script w) \<and> bodyAllowedForStatus s \<longrightarrow> body_bytes evs = concat cs)
       \<and> (\<not> bodyAllowedForStatus s \<longrightarrow> body_bytes evs = [])"
proof (cases "w_flusher w")
  case True
  with assms(1) have "io_Copy flushWriter_Write w cs = (w', rd, err)"
    by (simp add: copy_body_def)
  then show ?thesis
    using io_Copy_trace [of flushWriter_Write s w cs w' rd err] flushWriter_Write_step assms(2)
    by blast
next
  case False
  with assms(1) have "io_Copy Write w cs = (w', rd, err)"
    by (simp add: copy_body_def)
  then show ?thesis
    using io_Copy_trace [of Write s w cs w' rd err] Write_step assms(2)
    by blast
qed

lemma not_header_event_iff: "\<not> is_header_event e \<longleftrightarrow> (\<exists>p. e = WroteBody p) \<or> e = Flushed"
  by (cases e) simp_all

lemma bodyAllowedForStatus_final:
  assumes "s = 101 \<or> (200 \<le> s \<and> s \<le> 999)"
  shows "bodyAllowedForStatus s \<longleftrightarrow> s \<noteq> 101 \<and> s \<noteq> 204 \<and> s \<noteq> 304"
  using assms by (auto simp: bodyAllowedForStatus_def)

text \<open>The common end of the three handlers, on a writer that has written nothing.\<close>

lemma write_status_and_copy_relays:
  assumes "w_trace w = []"
    and copy: "\<And>w cs w' rd err s. copy w cs = (w', rd, err) \<Longrightarrow> status_of (w_trace w) = Some s \<Longrightarrow>
       \<exists>evs. w_trace w' = w_trace w @ evs \<and> (\<forall>e \<in> set evs. \<not> is_header_event e)
         \<and> HasPrefix rd (body_bytes evs)
         \<and> HasPrefix (concat cs) rd
         \<and> (accepts_all (w_script w) \<and> bodyAllowedForStatus s \<longrightarrow> body_bytes evs = concat cs)
         \<and> (\<not> bodyAllowedForStatus s \<longrightarrow> body_bytes evs = [])"
  shows "(resp_status resp = 101 \<or> (200 \<le> resp_status resp \<and> resp_status resp \<le> 999) \<longrightarrow>
         \<not> panicked ((relayed req (write_status_and_copy copy w resp) :: 'b handled))
         \<and> (\<exists>h evs. w_trace (writer ((relayed req (write_status_and_copy copy w resp) :: 'b handled))) = WroteHeader (resp_status resp) h # evs
               \<and> (\<forall>e \<in> set evs. (\<exists>p. e = WroteBody p) \<or> e = Flushed)
               \<and> (\<exists>rest. upstream_read ((relayed req (write_status_and_copy copy w resp) :: 'b handled)) = body_bytes evs @ rest)
               \<and> (\<exists>rest. concat (resp_chunks resp) = upstream_read ((relayed req (write_status_and_copy copy w resp) :: 'b handled)) @ rest)
               \<and> (accepts_all (w_script w) \<and> resp_status resp \<noteq> 101
                    \<and> resp_status resp \<noteq> 204 \<and> resp_status resp \<noteq> 304 \<longrightarrow>
                     body_bytes evs = concat (resp_chunks resp)
                     \<and> upstream_read ((relayed req (write_status_and_copy copy w resp) :: 'b handled)) = concat (resp_chunks resp))
               \<and> (resp_status resp = 101 \<or> resp_status resp = 204
                    \<or> resp_status resp = 304 \<longrightarrow> body_bytes evs = [])))
      \<and> (resp_status resp < 100 \<or> 999 < resp_status resp \<longrightarrow>
           panicked ((relayed req (write_status_and_copy copy w resp) :: 'b handled)) \<and> w_trace (writer ((relayed req (write_status_and_copy copy w resp) :: 'b handled))) = [])"
proof (intro conjI impI)
  assume p: "resp_status resp < 100 \<or> 999 < resp_status resp"
  have "WriteHeader w (resp_status resp) = None"
    using assms(1) p by (intro WriteHeader_panics) simp_all
  then have r: "relayed req (write_status_and_copy copy w resp)
      = (\<lparr>issued = [req], writer = w, upstream_read = [], panicked = True\<rparr> :: 'b handled)"
    by (simp add: write_status_and_copy_def relayed_def)
  show "panicked (relayed req (write_status_and_copy copy w resp) :: 'b handled)"
    unfolding r by simp
  show "w_trace (writer (relayed req (write_status_and_copy copy w resp) :: 'b handled)) = []"
    unfolding r using assms(1) by simp
next
  assume f: "resp_status resp = 101 \<or> (200 \<le> resp_status resp \<and> resp_status resp \<le> 999)"
  let ?w1 = "w\<lparr>w_trace := w_trace w @ [WroteHeader (resp_status resp) (w_header w)]\<rparr>"
  have h: "WriteHeader w (resp_status resp) = Some ?w1"
    using assms(1) f by (intro WriteHeader_final) simp_all
  obtain w' rd err where c: "copy ?w1 (resp_chunks resp) = (w', rd, err)"
    by (cases "copy ?w1 (resp_chunks resp)") auto
  have st: "status_of (w_trace ?w1) = Some (resp_status resp)"
    using assms(1) by simp
  from copy [OF c st] obtain evs where
    e: "w_trace w' = w_trace ?w1 @ evs" "\<forall>e \<in> set evs. \<not> is_header_event e"
       "HasPrefix rd (body_bytes evs)" "HasPrefix (concat (resp_chunks resp)) rd"
       "accepts_all (w_script ?w1) \<and> bodyAllowedForStatus (resp_status resp)
          \<longrightarrow> body_bytes evs = concat (resp_chunks resp)"
       "\<not> bodyAllowedForStatus (resp_status resp) \<longrightarrow> body_bytes evs = []"
    by blast
  note ba = bodyAllowedForStatus_final [OF f]
  have r: "relayed req (write_status_and_copy copy w resp)
      = (\<lparr>issued = [req], writer = w', upstream_read = rd, panicked = False\<rparr> :: 'b handled)"
    using h c by (simp add: write_status_and_copy_def relayed_def)
  have t: "w_trace w' = WroteHeader (resp_status resp) (w_header w) # evs"
    using e(1) assms(1) by simp
  have ev: "\<forall>e \<in> set evs. (\<exists>p. e = WroteBody p) \<or> e = Flushed"
    using e(2) by (simp add: not_header_event_iff)
  from e(3) obtain r1 where r1: "rd = body_bytes evs @ r1"
    using HasPrefix_rest by blast
  from e(4) obtain r2 where r2: "concat (resp_chunks resp) = rd @ r2"
    using HasPrefix_rest by blast
  have q: "body_bytes evs = concat (resp_chunks resp) \<and> rd = concat (resp_chunks resp)"
    if "accepts_all (w_script w) \<and> resp_status resp \<noteq> 101
          \<and> resp_status resp \<noteq> 204 \<and> resp_status resp \<noteq> 304"
  proof -
    from that e(5) ba have b: "body_bytes evs = concat (resp_chunks resp)" by simp
    with r1 r2 have "rd = concat (resp_chunks resp)" by simp
    with b show ?thesis by simp
  qed
  have z: "body_bytes evs = []"
    if "resp_status resp = 101 \<or> resp_status resp = 204 \<or> resp_status resp = 304"
    using that e(6) ba by blast
  show "\<not> panicked (relayed req (write_status_and_copy copy w resp) :: 'b handled)"
    unfolding r by simp
  have "w_trace (writer (\<lparr>issued = [req], writer = w', upstream_read = rd,
                           panicked = False\<rparr> :: 'b handled))
                  = WroteHeader (resp_status resp) (w_header w) # evs
               \<and> (\<forall>e \<in> set evs. (\<exists>p. e = WroteBody p) \<or> e = Flushed)
               \<and> (\<exists>rest. upstream_read (\<lparr>issued = [req], writer = w', upstream_read = rd,
                           panicked = False\<rparr> :: 'b handled) = body_bytes evs @ rest)
               \<and> (\<exists>rest. concat (resp_chunks resp)
                     = upstream_read (\<lparr>issued = [req], writer = w', upstream_read = rd,
                           panicked = False\<rparr> :: 'b handled) @ rest)
               \<and> (accepts_all (w_script w) \<and> resp_status resp \<noteq> 101
                    \<and> resp_status resp \<noteq> 204 \<and> resp_status resp \<noteq> 304 \<longrightarrow>
                     body_bytes evs = concat (resp_chunks resp)
                     \<and> upstream_read (\<lparr>issued = [req], writer = w', upstream_read = rd,
                           panicked = False\<rparr> :: 'b handled) = concat (resp_chunks resp))
               \<and> (resp_status resp = 101 \<or> resp_status resp = 204
                    \<or> resp_status resp = 304 \<longrightarrow> body_bytes evs = [])"
    using t ev r1 r2 q z by simp
  then show "\<exists>h evs. w_trace (writer (relayed req (write_status_and_copy copy w resp) :: 'b handled))
                  = WroteHeader (resp_status resp) h # evs
               \<and> (\<forall>e \<in> set evs. (\<exists>p. e = WroteBody p) \<or> e = Flushed)
               \<and> (\<exists>rest. upstream_read
                     (relayed req (write_status_and_copy copy w resp) :: 'b handled)
                     = body_bytes evs @ rest)
               \<and> (\<exists>rest. concat (resp_chunks resp) = upstream_read
                     (relayed req (write_status_and_copy copy w resp) :: 'b handled) @ rest)
               \<and> (accepts_all (w_script w) \<and> resp_status resp \<noteq> 101
                    \<and> resp_status resp \<noteq> 204 \<and> resp_status resp \<noteq> 304 \<longrightarrow>
                     body_bytes evs = concat (resp_chunks resp)
                     \<and> upstream_read
                         (relayed req (write_status_and_copy copy w resp) :: 'b handled)
                         = concat (resp_chunks resp))
               \<and> (resp_status resp = 101 \<or> resp_status resp = 204
                    \<or> resp_status resp = 304 \<longrightarrow> body_bytes evs = [])"
    unfolding r by blast
qed

lemma chatHandler_stream_alt:
  "\<exists>w2. w_trace w2 = w_trace w \<and> w_script w2 = w_script w
        \<and> chatHandler_stream w resp = write_status_and_copy copy_body w2 resp"
proof -
  let ?w1 = "if Get (resp_header resp) ''Content-Type'' \<noteq> []
             then w\<lparr>w_header := Set (w_header w) ''Content-Type''
                                   (Get (resp_header resp) ''Content-Type'')\<rparr>
             else w"
  let ?w2 = "if Get (resp_header resp) ''Transfer-Encoding'' \<noteq> []
             then ?w1\<lparr>w_header := Del (Set (w_header ?w1) ''Transfer-Encoding''
                                          (Get (resp_header resp) ''Transfer-Encoding''))
                                     ''Content-Length''\<rparr>
             else ?w1"
  have "chatHandler_stream w resp = write_status_and_copy copy_body ?w2 resp"
    by (simp add: chatHandler_stream_def Let_def)
  moreover have "w_trace ?w2 = w_trace w" and "w_script ?w2 = w_script w"
    by simp_all
  ultimately show ?thesis by blast
qed

lemma proxyHandler_stream_alt:
  "\<exists>w2. w_trace w2 = w_trace w \<and> w_script w2 = w_script w
        \<and> proxyHandler_stream w resp = write_status_and_copy copy_body w2 resp"
proof -
  let ?w0 = "w\<lparr>w_header := copyHeaders (w_header w) (resp_header resp) ehbpResponseHeaders\<rparr>"
  let ?w1 = "if Get (resp_header resp) ''Content-Type'' \<noteq> []
             then ?w0\<lparr>w_header := Set (w_header ?w0) ''Content-Type''
                                     (Get (resp_header resp) ''Content-Type'')\<rparr>
             else ?w0"
  let ?w2 = "if Get (resp_header resp) ''Transfer-Encoding'' \<noteq> []
             then ?w1\<lparr>w_header := Del (Set (w_header ?w1) ''Transfer-Encoding''
                                          (Get (resp_header resp) ''Transfer-Encoding''))
                                     ''Content-Length''\<rparr>
             else ?w1"
  have "proxyHandler_stream w resp = write_status_and_copy copy_body ?w2 resp"
    by (simp add: proxyHandler_stream_def Let_def)
  moreover have "w_trace ?w2 = w_trace w" and "w_script ?w2 = w_script w"
    by simp_all
  ultimately show ?thesis by blast
qed

lemma attestationHandler_stream_alt:
  "\<exists>w2. w_trace w2 = w_trace w \<and> w_script w2 = w_script w
        \<and> attestationHandler_stream w resp = write_status_and_copy (io_Copy Write) w2 resp"
proof -
  let ?w1 = "if Get (resp_header resp) ''Content-Type'' \<noteq> []
             then w\<lparr>w_header := Set (w_header w) ''Content-Type''
                                   (Get (resp_header resp) ''Content-Type'')\<rparr>
             else w"
  have "attestationHandler_stream w resp = write_status_and_copy (io_Copy Write) ?w1 resp"
    by (simp add: attestationHandler_stream_def Let_def)
  moreover have "w_trace ?w1 = w_trace w" and "w_script ?w1 = w_script w"
    by simp_all
  ultimately show ?thesis by blast
qed

lemma fresh_writer_script [simp]: "w_script (fresh_writer c) = c_script c"
  by (simp add: fresh_writer_def)

lemma cors_script [simp]: "w_script (cors w) = w_script w"
  by (simp add: cors_def)

lemma attestation_cors_script [simp]: "w_script (attestation_cors w) = w_script w"
  by (simp add: attestation_cors_def)

lemma chatHandler_relays:
  assumes "req \<in> set (issued (chatHandler W c r))" and "client_Do W req = Some resp"
  shows "\<exists>w. w_trace w = [] \<and> w_script w = c_script c
           \<and> chatHandler W c r = relayed req (write_status_and_copy copy_body w resp)"
proof -
  from assms(1) have "chatHandler_request W r = Inr req"
    by (rule issued_chatHandler)
  with assms(2) have "chatHandler W c r = relayed req (chatHandler_stream (fresh_writer c) resp)"
    by (simp add: chatHandler_def Let_def)
  then show ?thesis
    using chatHandler_stream_alt [of "fresh_writer c" resp] by auto
qed

lemma proxyHandler_relays:
  assumes "req \<in> set (issued (proxyHandler W c r))" and "p_client_Do W req = Inr resp"
  shows "\<exists>w. w_trace w = [] \<and> w_script w = c_script c
           \<and> proxyHandler W c r = relayed req (write_status_and_copy copy_body w resp)"
proof -
  from assms(1) have "req_method r \<noteq> ''OPTIONS''" and "proxyHandler_request W r = Inr req"
    by (simp_all add: issued_proxyHandler)
  with assms(2)
  have "proxyHandler W c r = relayed req (proxyHandler_stream (cors (fresh_writer c)) resp)"
    by (simp add: proxyHandler_def Let_def)
  then show ?thesis
    using proxyHandler_stream_alt [of "cors (fresh_writer c)" resp] by auto
qed

lemma attestationHandler_relays:
  assumes "req \<in> set (issued (attestationHandler W c r))" and "p_client_Do W req = Inr resp"
  shows "\<exists>w. w_trace w = [] \<and> w_script w = c_script c
           \<and> attestationHandler W c r = relayed req (write_status_and_copy (io_Copy Write) w resp)"
proof -
  let ?req = "\<lparr>up_method = req_method r, up_url = attestationURL,
                up_header = (if req_method r = ''POST''
                             then Set Map.empty ''Content-Type'' ''application/json''
                             else Map.empty),
                up_body = req_body r\<rparr>"
  from assms(1) have m: "req_method r \<noteq> ''OPTIONS''"
    and g: "req_method r = ''GET'' \<or> req_method r = ''POST''"
    and n: "p_new_request_error W attestationURL = None"
    and q: "req = ?req"
    by (auto simp: attestationHandler_def Let_def split: if_splits option.splits sum.splits)
  from m g n q assms(2)
  have "attestationHandler W c r
      = relayed req (attestationHandler_stream (attestation_cors (fresh_writer c)) resp)"
    by (auto simp: attestationHandler_def Let_def)
  then show ?thesis
    using attestationHandler_stream_alt [of "attestation_cors (fresh_writer c)" resp] by auto
qed

text \<open>
  C9, as amended. It holds for the two chat handlers and for the attestation handler.
  When the upstream status is one \<^verbatim>\<open>WriteHeader\<close> takes as final (101, or 200 to
  999), the first thing the writer accepts is the status line with that status and the
  header set as it stood then; everything after it is body bytes and flushes; the body
  bytes accepted are a prefix of the bytes read from upstream, and those a prefix of
  the upstream body; when no write fails and the status admits a body, the bytes
  accepted and the bytes read are the whole upstream body; under a status that admits
  no body (101, 204, 304) no body byte is accepted. When the upstream status is below
  100 or above 999, \<^verbatim>\<open>WriteHeader\<close> panics and nothing is written.
\<close>

theorem relayed_body_is_upstream_body:
  "(\<forall>req resp. req \<in> set (issued (chatHandler W c r)) \<and> client_Do W req = Some resp \<longrightarrow>
      (resp_status resp = 101 \<or> (200 \<le> resp_status resp \<and> resp_status resp \<le> 999) \<longrightarrow>
         \<not> panicked (chatHandler W c r)
         \<and> (\<exists>h evs. w_trace (writer (chatHandler W c r)) = WroteHeader (resp_status resp) h # evs
               \<and> (\<forall>e \<in> set evs. (\<exists>p. e = WroteBody p) \<or> e = Flushed)
               \<and> (\<exists>rest. upstream_read (chatHandler W c r) = body_bytes evs @ rest)
               \<and> (\<exists>rest. concat (resp_chunks resp) = upstream_read (chatHandler W c r) @ rest)
               \<and> (accepts_all (c_script c) \<and> resp_status resp \<noteq> 101
                    \<and> resp_status resp \<noteq> 204 \<and> resp_status resp \<noteq> 304 \<longrightarrow>
                     body_bytes evs = concat (resp_chunks resp)
                     \<and> upstream_read (chatHandler W c r) = concat (resp_chunks resp))
               \<and> (resp_status resp = 101 \<or> resp_status resp = 204
                    \<or> resp_status resp = 304 \<longrightarrow> body_bytes evs = [])))
      \<and> (resp_status resp < 100 \<or> 999 < resp_status resp \<longrightarrow>
           panicked (chatHandler W c r) \<and> w_trace (writer (chatHandler W c r)) = []))
   \<and> (\<forall>req resp. req \<in> set (issued (proxyHandler V c r')) \<and> p_client_Do V req = Inr resp \<longrightarrow>
      (resp_status resp = 101 \<or> (200 \<le> resp_status resp \<and> resp_status resp \<le> 999) \<longrightarrow>
         \<not> panicked (proxyHandler V c r')
         \<and> (\<exists>h evs. w_trace (writer (proxyHandler V c r')) = WroteHeader (resp_status resp) h # evs
               \<and> (\<forall>e \<in> set evs. (\<exists>p. e = WroteBody p) \<or> e = Flushed)
               \<and> (\<exists>rest. upstream_read (proxyHandler V c r') = body_bytes evs @ rest)
               \<and> (\<exists>rest. concat (resp_chunks resp) = upstream_read (proxyHandler V c r') @ rest)
               \<and> (accepts_all (c_script c) \<and> resp_status resp \<noteq> 101
                    \<and> resp_status resp \<noteq> 204 \<and> resp_status resp \<noteq> 304 \<longrightarrow>
                     body_bytes evs = concat (resp_chunks resp)
                     \<and> upstream_read (proxyHandler V c r') = concat (resp_chunks resp))
               \<and> (resp_status resp = 101 \<or> resp_status resp = 204
                    \<or> resp_status resp = 304 \<longrightarrow> body_bytes evs = [])))
      \<and> (resp_status resp < 100 \<or> 999 < resp_status resp \<longrightarrow>
           panicked (proxyHandler V c r') \<and> w_trace (writer (proxyHandler V c r')) = []))
   \<and> (\<forall>req resp. req \<in> set (issued (attestationHandler V c r')) \<and> p_client_Do V req = Inr resp \<longrightarrow>
      (resp_status resp = 101 \<or> (200 \<le> resp_status resp \<and> resp_status resp \<le> 999) \<longrightarrow>
         \<not> panicked (attestationHandler V c r')
         \<and> (\<exists>h evs. w_trace (writer (attestationHandler V c r')) = WroteHeader (resp_status resp) h # evs
               \<and> (\<forall>e \<in> set evs. (\<exists>p. e = WroteBody p) \<or> e = Flushed)
               \<and> (\<exists>rest. upstream_read (attestationHandler V c r') = body_bytes evs @ rest)
               \<and> (\<exists>rest. concat (resp_chunks resp) = upstream_read (attestationHandler V c r') @ rest)
               \<and> (accepts_all (c_script c) \<and> resp_status resp \<noteq> 101
                    \<and> resp_status resp \<noteq> 204 \<and> resp_status resp \<noteq> 304 \<longrightarrow>
                     body_bytes evs = concat (resp_chunks resp)
                     \<and> upstream_read (attestationHandler V c r') = concat (resp_chunks resp))
               \<and> (resp_status resp = 101 \<or> resp_status resp = 204
                    \<or> resp_status resp = 304 \<longrightarrow> body_bytes evs = [])))
      \<and> (resp_status resp < 100 \<or> 999 < resp_status resp \<longrightarrow>
           panicked (attestationHandler V c r') \<and> w_trace (writer (attestationHandler V c r')) = []))"
proof (intro conjI allI)
  fix req resp
  show "req \<in> set (issued (chatHandler W c r)) \<and> client_Do W req = Some resp \<longrightarrow>
      (resp_status resp = 101 \<or> (200 \<le> resp_status resp \<and> resp_status resp \<le> 999) \<longrightarrow>
         \<not> panicked (chatHandler W c r)
         \<and> (\<exists>h evs. w_trace (writer (chatHandler W c r)) = WroteHeader (resp_status resp) h # evs
               \<and> (\<forall>e \<in> set evs. (\<exists>p. e = WroteBody p) \<or> e = Flushed)
               \<and> (\<exists>rest. upstream_read (chatHandler W c r) = body_bytes evs @ rest)
               \<and> (\<exists>rest. concat (resp_chunks resp) = upstream_read (chatHandler W c r) @ rest)
               \<and> (accepts_all (c_script c) \<and> resp_status resp \<noteq> 101
                    \<and> resp_status resp \<noteq> 204 \<and> resp_status resp \<noteq> 304 \<longrightarrow>
                     body_bytes evs = concat (resp_chunks resp)
                     \<and> upstream_read (chatHandler W c r) = concat (resp_chunks resp))
               \<and> (resp_status resp = 101 \<or> resp_status resp = 204
                    \<or> resp_status resp = 304 \<longrightarrow> body_bytes evs = [])))
      \<and> (resp_status resp < 100 \<or> 999 < resp_status resp \<longrightarrow>
           panicked (chatHandler W c r) \<and> w_trace (writer (chatHandler W c r)) = [])"
  proof
    assume "req \<in> set (issued (chatHandler W c r)) \<and> client_Do W req = Some resp"
    then obtain w where w: "w_trace w = []" "w_script w = c_script c"
      and h: "chatHandler W c r = relayed req (write_status_and_copy copy_body w resp)"
      using chatHandler_relays by blast
    show "(resp_status resp = 101 \<or> (200 \<le> resp_status resp \<and> resp_status resp \<le> 999) \<longrightarrow>
         \<not> panicked (chatHandler W c r)
         \<and> (\<exists>h evs. w_trace (writer (chatHandler W c r)) = WroteHeader (resp_status resp) h # evs
               \<and> (\<forall>e \<in> set evs. (\<exists>p. e = WroteBody p) \<or> e = Flushed)
               \<and> (\<exists>rest. upstream_read (chatHandler W c r) = body_bytes evs @ rest)
               \<and> (\<exists>rest. concat (resp_chunks resp) = upstream_read (chatHandler W c r) @ rest)
               \<and> (accepts_all (c_script c) \<and> resp_status resp \<noteq> 101
                    \<and> resp_status resp \<noteq> 204 \<and> resp_status resp \<noteq> 304 \<longrightarrow>
                     body_bytes evs = concat (resp_chunks resp)
                     \<and> upstream_read (chatHandler W c r) = concat (resp_chunks resp))
               \<and> (resp_status resp = 101 \<or> resp_status resp = 204
                    \<or> resp_status resp = 304 \<longrightarrow> body_bytes evs = [])))
      \<and> (resp_status resp < 100 \<or> 999 < resp_status resp \<longrightarrow>
           panicked (chatHandler W c r) \<and> w_trace (writer (chatHandler W c r)) = [])"
      unfolding h w(2) [symmetric]
      by (rule write_status_and_copy_relays [OF w(1)]) (rule copy_body_trace)
  qed
next
  fix req resp
  show "req \<in> set (issued (proxyHandler V c r')) \<and> p_client_Do V req = Inr resp \<longrightarrow>
      (resp_status resp = 101 \<or> (200 \<le> resp_status resp \<and> resp_status resp \<le> 999) \<longrightarrow>
         \<not> panicked (proxyHandler V c r')
         \<and> (\<exists>h evs. w_trace (writer (proxyHandler V c r')) = WroteHeader (resp_status resp) h # evs
               \<and> (\<forall>e \<in> set evs. (\<exists>p. e = WroteBody p) \<or> e = Flushed)
               \<and> (\<exists>rest. upstream_read (proxyHandler V c r') = body_bytes evs @ rest)
               \<and> (\<exists>rest. concat (resp_chunks resp) = upstream_read (proxyHandler V c r') @ rest)
               \<and> (accepts_all (c_script c) \<and> resp_status resp \<noteq> 101
                    \<and> resp_status resp \<noteq> 204 \<and> resp_status resp \<noteq> 304 \<longrightarrow>
                     body_bytes evs = concat (resp_chunks resp)
                     \<and> upstream_read (proxyHandler V c r') = concat (resp_chunks resp))
               \<and> (resp_status resp = 101 \<or> resp_status resp = 204
                    \<or> resp_status resp = 304 \<longrightarrow> body_bytes evs = [])))
      \<and> (resp_status resp < 100 \<or> 999 < resp_status resp \<longrightarrow>
           panicked (proxyHandler V c r') \<and> w_trace (writer (proxyHandler V c r')) = [])"
  proof
    assume "req \<in> set (issued (proxyHandler V c r')) \<and> p_client_Do V req = Inr resp"
    then obtain w where w: "w_trace w = []" "w_script w = c_script c"
      and h: "proxyHandler V c r' = relayed req (write_status_and_copy copy_body w resp)"
      using proxyHandler_relays by blast
    show "(resp_status resp = 101 \<or> (200 \<le> resp_status resp \<and> resp_status resp \<le> 999) \<longrightarrow>
         \<not> panicked (proxyHandler V c r')
         \<and> (\<exists>h evs. w_trace (writer (proxyHandler V c r')) = WroteHeader (resp_status resp) h # evs
               \<and> (\<forall>e \<in> set evs. (\<exists>p. e = WroteBody p) \<or> e = Flushed)
               \<and> (\<exists>rest. upstream_read (proxyHandler V c r') = body_bytes evs @ rest)
               \<and> (\<exists>rest. concat (resp_chunks resp) = upstream_read (proxyHandler V c r') @ rest)
               \<and> (accepts_all (c_script c) \<and> resp_status resp \<noteq> 101
                    \<and> resp_status resp \<noteq> 204 \<and> resp_status resp \<noteq> 304 \<longrightarrow>
                     body_bytes evs = concat (resp_chunks resp)
                     \<and> upstream_read (proxyHandler V c r') = concat (resp_chunks resp))
               \<and> (resp_status resp = 101 \<or> resp_status resp = 204
                    \<or> resp_status resp = 304 \<longrightarrow> body_bytes evs = [])))
      \<and> (resp_status resp < 100 \<or> 999 < resp_status resp \<longrightarrow>
           panicked (proxyHandler V c r') \<and> w_trace (writer (proxyHandler V c r')) = [])"
      unfolding h w(2) [symmetric]
      by (rule write_status_and_copy_relays [OF w(1)]) (rule copy_body_trace)
  qed
next
  fix req resp
  show "req \<in> set (issued (attestationHandler V c r')) \<and> p_client_Do V req = Inr resp \<longrightarrow>
      (resp_status resp = 101 \<or> (200 \<le> resp_status resp \<and> resp_status resp \<le> 999) \<longrightarrow>
         \<not> panicked (attestationHandler V c r')
         \<and> (\<exists>h evs. w_trace (writer (attestationHandler V c r')) = WroteHeader (resp_status resp) h # evs
               \<and> (\<forall>e \<in> set evs. (\<exists>p. e = WroteBody p) \<or> e = Flushed)
               \<and> (\<exists>rest. upstream_read (attestationHandler V c r') = body_bytes evs @ rest)
               \<and> (\<exists>rest. concat (resp_chunks resp) = upstream_read (attestationHandler V c r') @ rest)
               \<and> (accepts_all (c_script c) \<and> resp_status resp \<noteq> 101
                    \<and> resp_status resp \<noteq> 204 \<and> resp_status resp \<noteq> 304 \<longrightarrow>
                     body_bytes evs = concat (resp_chunks resp)
                     \<and> upstream_read (attestationHandler V c r') = concat (resp_chunks resp))
               \<and> (resp_status resp = 101 \<or> resp_status resp = 204
                    \<or> resp_status resp = 304 \<longrightarrow> body_bytes evs = [])))
      \<and> (resp_status resp < 100 \<or> 999 < resp_status resp \<longrightarrow>
           panicked (attestationHandler V c r') \<and> w_trace (writer (attestationHandler V c r')) = [])"
  proof
    assume "req \<in> set (issued (attestationHandler V c r')) \<and> p_client_Do V req = Inr resp"
    then obtain w where w: "w_trace w = []" "w_script w = c_script c"
      and h: "attestationHandler V c r' = relayed req (write_status_and_copy (io_Copy Write) w resp)"
      using attestationHandler_relays by blast
    have cp: "\<exists>evs. w_trace w' = w_trace w0 @ evs \<and> (\<forall>e \<in> set evs. \<not> is_header_event e)
         \<and> HasPrefix rd (body_bytes evs)
         \<and> HasPrefix (concat cs) rd
         \<and> (accepts_all (w_script w0) \<and> bodyAllowedForStatus s \<longrightarrow> body_bytes evs = concat cs)
         \<and> (\<not> bodyAllowedForStatus s \<longrightarrow> body_bytes evs = [])"
      if "io_Copy Write w0 cs = (w', rd, err)" and "status_of (w_trace w0) = Some s"
      for w0 cs w' rd err s
      using io_Copy_trace [of Write s w0 cs w' rd err] Write_step that by blast
    show "(resp_status resp = 101 \<or> (200 \<le> resp_status resp \<and> resp_status resp \<le> 999) \<longrightarrow>
         \<not> panicked (attestationHandler V c r')
         \<and> (\<exists>h evs. w_trace (writer (attestationHandler V c r')) = WroteHeader (resp_status resp) h # evs
               \<and> (\<forall>e \<in> set evs. (\<exists>p. e = WroteBody p) \<or> e = Flushed)
               \<and> (\<exists>rest. upstream_read (attestationHandler V c r') = body_bytes evs @ rest)
               \<and> (\<exists>rest. concat (resp_chunks resp) = upstream_read (attestationHandler V c r') @ rest)
               \<and> (accepts_all (c_script c) \<and> resp_status resp \<noteq> 101
                    \<and> resp_status resp \<noteq> 204 \<and> resp_status resp \<noteq> 304 \<longrightarrow>
                     body_bytes evs = concat (resp_chunks resp)
                     \<and> upstream_read (attestationHandler V c r') = concat (resp_chunks resp))
               \<and> (resp_status resp = 101 \<or> resp_status resp = 204
                    \<or> resp_status resp = 304 \<longrightarrow> body_bytes evs = [])))
      \<and> (resp_status resp < 100 \<or> 999 < resp_status resp \<longrightarrow>
           panicked (attestationHandler V c r') \<and> w_trace (writer (attestationHandler V c r')) = [])"
      unfolding h w(2) [symmetric]
      by (rule write_status_and_copy_relays [OF w(1)]) (rule cp)
  qed
qed

lemma ex_odd_status_request:
  "proxyHandler_request ex_odd_status_world r = proxyHandler_request ex_proxy_world r"
  by (simp add: proxyHandler_request_def ex_odd_status_world_def ex_proxy_world_def Let_def)

theorem relayed_body_is_upstream_body_witness:
  "accepts_all (c_script ex_caller)
   \<and> upstream_read (chatHandler (ex_function_world ex_env) ex_caller
         (ex_chat_request Map.empty ''gpt-oss-120b'')) = ''data''
   \<and> body_bytes (w_trace (writer (chatHandler (ex_function_world ex_env) ex_caller
         (ex_chat_request Map.empty ''gpt-oss-120b'')))) = ''data''
   \<and> upstream_read (proxyHandler ex_proxy_world ex_caller (ex_relay_request ''POST'' ''paid''))
       = ''data''
   \<and> body_bytes (w_trace (writer
         (proxyHandler ex_proxy_world ex_caller (ex_relay_request ''POST'' ''paid'')))) = ''data''
   \<and> panicked (proxyHandler ex_odd_status_world ex_caller (ex_relay_request ''POST'' ''paid''))
   \<and> w_trace (writer
         (proxyHandler ex_odd_status_world ex_caller (ex_relay_request ''POST'' ''paid''))) = []"
proof -
  let ?F = "chatHandler (ex_function_world ex_env) ex_caller
              (ex_chat_request Map.empty ''gpt-oss-120b'')"
  let ?P = "proxyHandler ex_proxy_world ex_caller (ex_relay_request ''POST'' ''paid'')"
  let ?Q = "proxyHandler ex_odd_status_world ex_caller (ex_relay_request ''POST'' ''paid'')"
  let ?resp = "\<lparr>resp_status = 200, resp_header = Map.empty, resp_chunks = [''da'', ''ta'']\<rparr>"
  let ?odd = "\<lparr>resp_status = 42, resp_header = Map.empty, resp_chunks = [''da'', ''ta'']\<rparr>"
  have a: "accepts_all (c_script ex_caller)"
    by (simp add: accepts_all_def ex_caller_def)
  obtain req where i: "issued ?F = [req]"
    using ex_chat_forwards [of Map.empty ex_env "''gpt-oss-120b''"]
      English_valid ex_env_configured
    by (auto simp: effectiveLanguage_empty)
  have d: "client_Do (ex_function_world ex_env) req = Some ?resp"
    by (simp add: ex_function_world_def)
  note t1 = relayed_body_is_upstream_body
      [of "ex_function_world ex_env" ex_caller "ex_chat_request Map.empty ''gpt-oss-120b''"
          ex_proxy_world "ex_relay_request ''POST'' ''paid''"]
  from t1 [THEN conjunct1, rule_format, of req ?resp] i d a
  have "\<exists>h evs. w_trace (writer ?F) = WroteHeader 200 h # evs
          \<and> body_bytes evs = ''data'' \<and> upstream_read ?F = ''data''"
    by simp blast
  then have f: "upstream_read ?F = ''data'' \<and> body_bytes (w_trace (writer ?F)) = ''data''"
    by auto
  have "issued ?P \<noteq> []"
    by (rule ex_relay_issued) simp
  then obtain q where j: "q \<in> set (issued ?P)"
    by (cases "issued ?P") auto
  have e: "p_client_Do ex_proxy_world q = Inr ?resp"
    by (simp add: ex_proxy_world_def)
  from t1 [THEN conjunct2, THEN conjunct1, rule_format, of q ?resp] j e a
  have "\<exists>h evs. w_trace (writer ?P) = WroteHeader 200 h # evs
          \<and> body_bytes evs = ''data'' \<and> upstream_read ?P = ''data''"
    by simp blast
  then have p: "upstream_read ?P = ''data'' \<and> body_bytes (w_trace (writer ?P)) = ''data''"
    by auto
  note t2 = relayed_body_is_upstream_body
      [of "ex_function_world ex_env" ex_caller "ex_chat_request Map.empty ''gpt-oss-120b''"
          ex_odd_status_world "ex_relay_request ''POST'' ''paid''"]
  have m: "req_method (ex_relay_request ''POST'' ''paid'') \<noteq> ''OPTIONS''"
    by (simp add: ex_relay_request_def)
  have "issued ?Q \<noteq> []"
    using m ex_relay_request_result [of "''POST''" "''paid''"]
    by (simp add: proxyHandler_def Let_def ex_odd_status_request split: sum.splits)
  then obtain q' where j': "q' \<in> set (issued ?Q)"
    by (cases "issued ?Q") auto
  have e': "p_client_Do ex_odd_status_world q' = Inr ?odd"
    by (simp add: ex_odd_status_world_def)
  from t2 [THEN conjunct2, THEN conjunct1, rule_format, of q' ?odd] j' e'
  have o: "panicked ?Q \<and> w_trace (writer ?Q) = []"
    by simp
  from a f p o show ?thesis by simp
qed

theorem failed_write_loses_bytes_counterexample:
  "upstream_read (proxyHandler ex_proxy_world ex_broken_caller (ex_relay_request ''POST'' ''paid''))
     = ''da''
   \<and> body_bytes (w_trace (writer
        (proxyHandler ex_proxy_world ex_broken_caller (ex_relay_request ''POST'' ''paid'')))) = []"
proof -
  have m: "req_method (ex_relay_request ''POST'' ''paid'') \<noteq> ''OPTIONS''"
    by (simp add: ex_relay_request_def)
  have d: "p_client_Do ex_proxy_world q =
     Inr \<lparr>resp_status = 200, resp_header = Map.empty, resp_chunks = [''da'', ''ta'']\<rparr>" for q
    by (simp add: ex_proxy_world_def)
  have s: "proxyHandler_stream (cors (fresh_writer ex_broken_caller))
      \<lparr>resp_status = 200, resp_header = Map.empty, resp_chunks = [''da'', ''ta'']\<rparr>
     = Inr (w', rd, e)
     \<Longrightarrow> rd = ''da'' \<and> body_bytes (w_trace w') = []" for w' rd e
    by (auto simp: proxyHandler_stream_def write_status_and_copy_def Let_def
        ehbpResponseHeaders_def Get_def copy_body_def cors_def fresh_writer_def
        ex_broken_caller_def WriteHeader_def flushWriter_Write_def Write_def Flush_def
        implicit_header_def bodyAllowedForStatus_def)
  have n: "proxyHandler_stream (cors (fresh_writer ex_broken_caller))
      \<lparr>resp_status = 200, resp_header = Map.empty, resp_chunks = [''da'', ''ta'']\<rparr>
     \<noteq> Inl w'" for w'
    by (simp add: proxyHandler_stream_def write_status_and_copy_def Let_def WriteHeader_def
        ehbpResponseHeaders_def Get_def)
  show ?thesis
    using s n ex_relay_request_result [of "''POST''" "''paid''"]
    by (auto simp: proxyHandler_def Let_def m d relayed_def split: sum.splits prod.splits)
qed

end
